theory Spec2Isabelle
  imports Main "HOL-Library.List_Lexorder" "HOL-Library.Multiset"
begin

section \<open>Data model of \<open>tenpy.linalg.np_conserved\<close>\<close>

text \<open>
  The module is Python 2. Exceptions are values of type \<open>error\<close>; a function that can raise
  returns \<open>error + 'a\<close> with \<open>Inl\<close> for the exception. \<open>raise NotImplemented\<close> raises a
  \<open>TypeError\<close> in Python 2, since \<open>NotImplemented\<close> is not an exception class.
\<close>

datatype error = ValueError | IndexError | TypeError | ZeroDivisionError | AttributeError
  | NameError | OverflowError

datatype dtype = Bool8 | Int64 | Float64 | Complex128

text \<open>
  A dense numpy block: its shape, its entries in row-major (C) order and its element type.
  The entries are of one HOL type \<open>'a\<close>; \<open>nd_dtype\<close> is the numpy label.
\<close>

record 'a ndarray =
  nd_shape :: "nat list"
  nd_data :: "'a list"
  nd_dtype :: dtype

text \<open>
  A leg. \<open>qind\<close> is the sector table, one row \<open>(start, stop, charges)\<close> per sector, and
  \<open>qconj\<close> the sign. A \<open>LegPipe\<close> is a leg that also carries the legs it fuses and the table
  \<open>q_map\<close>, whose rows are \<open>(b_start, b_stop, member sectors, fused sector)\<close>.
  The classes themselves live in \<open>tenpy.linalg.charges\<close>; the fields are the attributes
  this module reads.
\<close>

type_synonym qind_row = "nat \<times> nat \<times> int list"
type_synonym qmap_row = "nat \<times> nat \<times> nat list \<times> nat"

datatype leg =
    LegCharge (qind: "qind_row list") (qconj: int)
  | LegPipe (qind: "qind_row list") (qconj: int) (pipe_legs: "leg list") (q_map: "qmap_row list")

record 'a array =
  chinfo :: "nat list"
  legs :: "leg list"
  shape :: "nat list"
  dtype :: dtype
  qtotal :: "int list"
  labels :: "(string \<times> nat) list"
  data :: "'a ndarray list"
  qdata :: "nat list list"
  qdata_sorted :: bool

definition rank :: "'a array \<Rightarrow> nat" where
  "rank self = length (shape self)"

definition stored_blocks :: "'a array \<Rightarrow> nat" where
  "stored_blocks self = length (data self)"

subsection \<open>Python sequences and dictionaries\<close>

definition py_nth :: "'a list \<Rightarrow> nat \<Rightarrow> error + 'a" where
  "py_nth xs i = (if i < length xs then Inr (xs ! i) else Inl IndexError)"

text \<open>\<open>xs[i]\<close> for a Python integer: a negative index counts from the end.\<close>

definition py_getitem :: "'a list \<Rightarrow> int \<Rightarrow> error + 'a" where
  "py_getitem xs i =
     (let n = int (length xs); j = (if i < 0 then i + n else i)
      in if 0 \<le> j \<and> j < n then Inr (xs ! nat j) else Inl IndexError)"

text \<open>A list comprehension whose body can raise: the first exception ends it.\<close>

fun map_err :: "('a \<Rightarrow> error + 'b) \<Rightarrow> 'a list \<Rightarrow> error + 'b list" where
  "map_err f [] = Inr []"
| "map_err f (x # xs) =
     (case f x of
        Inl e \<Rightarrow> Inl e
      | Inr y \<Rightarrow> (case map_err f xs of Inl e \<Rightarrow> Inl e | Inr ys \<Rightarrow> Inr (y # ys)))"

text \<open>A dictionary with string keys, kept as an association list with distinct keys.\<close>

definition dict_set :: "(string \<times> 'v) list \<Rightarrow> string \<Rightarrow> 'v \<Rightarrow> (string \<times> 'v) list" where
  "dict_set d k v =
     (if k \<in> fst ` set d then map (\<lambda>(k', v'). if k' = k then (k', v) else (k', v')) d
      else d @ [(k, v)])"

subsection \<open>Copies\<close>

text \<open>
  \<open>copy(deep=False)\<close> returns a new object with the same field values; the model passes
  arrays by value, so both copies are the identity on the value. What a later in-place
  method does to the object it was called on is written as the value it returns.
\<close>

definition copy :: "bool \<Rightarrow> 'a array \<Rightarrow> 'a array" where
  "copy deep self = self"

definition zeros_like :: "'a array \<Rightarrow> 'a array" where
  "zeros_like self =
     (let res = copy False self
      in res\<lparr>data := [], qdata := [], qdata_sorted := True\<rparr>)"

subsection \<open>Blockwise unary operations and scalar multiplication\<close>

definition iunary_blockwise :: "('a ndarray \<Rightarrow> 'a ndarray) \<Rightarrow> 'a array \<Rightarrow> 'a array" where
  "iunary_blockwise func self =
     (let self1 = self\<lparr>data := map func (data self)\<rparr>
      in if length (data self1) > 0 then self1\<lparr>dtype := nd_dtype (hd (data self1))\<rparr>
         else self1)"

definition unary_blockwise :: "('a ndarray \<Rightarrow> 'a ndarray) \<Rightarrow> 'a array \<Rightarrow> 'a array" where
  "unary_blockwise func self = (let res = copy False self in iunary_blockwise func res)"

text \<open>
  The right operand of \<open>*\<close>: \<open>sp.isscalar(other)\<close> holds for \<open>Scalar c\<close> only.
  \<open>np_multiply\<close> is numpy's kernel \<open>np.multiply(block, other)\<close>, a parameter.
\<close>

datatype 's operand = Scalar 's | NotScalar

definition mul ::
  "('a ndarray \<Rightarrow> 's \<Rightarrow> 'a ndarray) \<Rightarrow> 'a array \<Rightarrow> ('s::zero) operand \<Rightarrow> error + 'a array" where
  "mul np_multiply self other =
     (case other of
        Scalar c \<Rightarrow>
          if c = 0 then Inr (zeros_like self)
          else Inr (unary_blockwise (\<lambda>t. np_multiply t c) self)
      | NotScalar \<Rightarrow> Inl TypeError)"

definition rmul ::
  "('a ndarray \<Rightarrow> 's \<Rightarrow> 'a ndarray) \<Rightarrow> 'a array \<Rightarrow> ('s::zero) operand \<Rightarrow> error + 'a array" where
  "rmul np_multiply self other = mul np_multiply self other"

definition imul ::
  "('a ndarray \<Rightarrow> 's \<Rightarrow> 'a ndarray) \<Rightarrow> 'a array \<Rightarrow> ('s::zero) operand \<Rightarrow> error + 'a array" where
  "imul np_multiply self other =
     (case other of
        Scalar c \<Rightarrow>
          if c = 0 then Inr (self\<lparr>data := [], qdata := [], qdata_sorted := True\<rparr>)
          else Inr (iunary_blockwise (\<lambda>t. np_multiply t c) self)
      | NotScalar \<Rightarrow> Inl TypeError)"

text \<open>A concrete kernel for integer blocks, used to run the operations on examples.\<close>

definition int_multiply :: "int ndarray \<Rightarrow> int \<Rightarrow> int ndarray" where
  "int_multiply t c = t\<lparr>nd_data := map (\<lambda>x. x * c) (nd_data t)\<rparr>"

subsection \<open>The charge group and the legs\<close>

text \<open>
  Modelled from the spec: \<open>ChargeInfo.make_valid\<close> of \<open>tenpy.linalg.charges\<close>, which is
  not part of this module. It canonicalizes a charge vector component-wise by the modulus of
  the component, where modulus 0 means unbounded. The field \<open>chinfo\<close> of an array is the
  list of moduli.
\<close>

definition make_valid :: "nat list \<Rightarrow> int list \<Rightarrow> int list" where
  "make_valid mods q = map2 (\<lambda>m x. if m = 0 then x else x mod int m) mods q"

text \<open>
  Modelled from the spec: the attributes and methods of \<open>LegCharge\<close> that this module
  calls. \<open>block_number\<close> is the sector count, \<open>ind_len\<close> the total flat size,
  \<open>get_slice\<close> the index range of a sector, \<open>get_charge\<close> the charge of a sector
  multiplied by \<open>qconj\<close>, \<open>get_qindex\<close> the sector and offset of a flat index in
  \<open>0 \<le> i < ind_len\<close> (any other index raises), \<open>leg_conj\<close> the leg with the opposite
  sign, and \<open>test_equal\<close> raises unless both legs have the same sectors, charges and sign.
\<close>

definition block_number :: "leg \<Rightarrow> nat" where
  "block_number l = length (qind l)"

definition ind_len :: "leg \<Rightarrow> nat" where
  "ind_len l = (case qind l of [] \<Rightarrow> 0 | _ \<Rightarrow> fst (snd (last (qind l))))"

definition get_slice :: "leg \<Rightarrow> nat \<Rightarrow> error + (nat \<times> nat)" where
  "get_slice l qi =
     (case py_nth (qind l) qi of Inl e \<Rightarrow> Inl e | Inr (b, e, c) \<Rightarrow> Inr (b, e))"

definition get_charge :: "leg \<Rightarrow> nat \<Rightarrow> error + int list" where
  "get_charge l qi =
     (case py_nth (qind l) qi of
        Inl e \<Rightarrow> Inl e
      | Inr (b, e, c) \<Rightarrow> Inr (map (\<lambda>x. qconj l * x) c))"

fun find_sector :: "qind_row list \<Rightarrow> nat \<Rightarrow> nat \<Rightarrow> (nat \<times> nat) option" where
  "find_sector [] k i = None"
| "find_sector ((b, e, c) # rows) k i =
     (if b \<le> i \<and> i < e then Some (k, i - b) else find_sector rows (Suc k) i)"

definition get_qindex :: "leg \<Rightarrow> int \<Rightarrow> error + (nat \<times> nat)" where
  "get_qindex l i =
     (if i < 0 \<or> int (ind_len l) \<le> i then Inl IndexError
      else (case find_sector (qind l) 0 (nat i) of
              None \<Rightarrow> Inl IndexError
            | Some p \<Rightarrow> Inr p))"

fun leg_conj :: "leg \<Rightarrow> leg" where
  "leg_conj (LegCharge q c) = LegCharge q (- c)"
| "leg_conj (LegPipe q c ls m) = LegPipe q (- c) (map leg_conj ls) m"

definition test_equal :: "leg \<Rightarrow> leg \<Rightarrow> error + unit" where
  "test_equal l1 l2 =
     (if qind l1 = qind l2 \<and> qconj l1 = qconj l2 then Inr () else Inl ValueError)"

subsection \<open>Dense blocks\<close>

text \<open>
  The position of a multi-index in the row-major entry list, \<open>block[idx]\<close> for a full
  tuple of non-negative integers, and \<open>np.zeros\<close>.
\<close>

fun ravel_multi_index :: "nat list \<Rightarrow> nat list \<Rightarrow> nat" where
  "ravel_multi_index (n # ns) (i # is) = i * prod_list ns + ravel_multi_index ns is"
| "ravel_multi_index ns is = 0"

definition in_bounds :: "nat list \<Rightarrow> nat list \<Rightarrow> bool" where
  "in_bounds shp idx = list_all2 (\<lambda>i n. i < n) idx shp"

definition nd_getitem :: "'a ndarray \<Rightarrow> nat list \<Rightarrow> error + 'a" where
  "nd_getitem t idx =
     (if in_bounds (nd_shape t) idx
      then py_nth (nd_data t) (ravel_multi_index (nd_shape t) idx)
      else Inl IndexError)"



definition np_zeros :: "nat list \<Rightarrow> dtype \<Rightarrow> ('a::zero) ndarray" where
  "np_zeros shp dt = \<lparr>nd_shape = shp, nd_data = replicate (prod_list shp) 0, nd_dtype = dt\<rparr>"

definition np_zeros_like :: "('a::zero) ndarray \<Rightarrow> 'a ndarray" where
  "np_zeros_like t = np_zeros (nd_shape t) (nd_dtype t)"

subsection \<open>Charge, shape and lookup of a block\<close>

text \<open>
  \<open>np.sum(charges, axis=0)\<close> of a list of charge vectors, each with one entry per
  modulus of \<open>chinfo\<close>.
\<close>

definition charge_sum :: "nat \<Rightarrow> int list list \<Rightarrow> int list" where
  "charge_sum n qs = foldr (\<lambda>q acc. map2 (+) q acc) qs (replicate n 0)"

definition get_block_charge :: "'a array \<Rightarrow> nat list \<Rightarrow> error + int list" where
  "get_block_charge self qindices =
     (case map_err (\<lambda>(l, qi). get_charge l qi) (zip (legs self) qindices) of
        Inl e \<Rightarrow> Inl e
      | Inr qs \<Rightarrow> Inr (make_valid (chinfo self) (charge_sum (length (chinfo self)) qs)))"

definition get_block_shape :: "'a array \<Rightarrow> nat list \<Rightarrow> error + nat list" where
  "get_block_shape self qindices =
     map_err (\<lambda>(l, qi). case py_nth (qind l) qi of
                           Inl e \<Rightarrow> Inl e
                         | Inr (b, e, c) \<Rightarrow> Inr (e - b))
             (zip (legs self) qindices)"

text \<open>
  \<open>_get_block\<close> returns a reference to the block, through which \<open>__setitem__\<close> then
  writes. The model returns the position of the block in \<open>_data\<close> (\<open>None\<close> for Python's
  \<open>None\<close>) together with the array after the call, which has one more block when a block was
  inserted.
\<close>

definition get_block ::
  "('a::zero) array \<Rightarrow> nat list \<Rightarrow> bool \<Rightarrow> bool \<Rightarrow> error + (nat option \<times> 'a array)" where
  "get_block self qindices ins raise_incomp_q =
     (case get_block_charge self qindices of
        Inl e \<Rightarrow> Inl e
      | Inr q \<Rightarrow>
          if q \<noteq> qtotal self then
            (if raise_incomp_q then Inl IndexError else Inr (None, self))
          else
            (case filter (\<lambda>i. qdata self ! i = qindices) [0..<length (qdata self)] of
               [] \<Rightarrow>
                 if ins then
                   (case get_block_shape self qindices of
                      Inl e \<Rightarrow> Inl e
                    | Inr shp \<Rightarrow>
                        Inr (Some (length (data self)),
                             self\<lparr>data := data self @ [np_zeros shp (dtype self)],
                                  qdata := qdata self @ [qindices],
                                  qdata_sorted := False\<rparr>))
                 else Inr (None, self)
             | m # ms \<Rightarrow>
                 (if m < length (data self) then Inr (Some m, self) else Inl IndexError)))"

subsection \<open>Integer indexing\<close>

text \<open>
  One entry of an index tuple is an integer, \<open>Ellipsis\<close> or a slice. The argument of
  \<open>self[inds]\<close> is a tuple of entries or a single entry that is not a tuple; none of the
  three kinds of entry is iterable, so \<open>tuple(inds)\<close> raises \<open>TypeError\<close> for it.
\<close>

datatype pyindex = IInt int | IEllipsis | ISlice "int option" "int option" "int option"

datatype inds_arg = ITuple "pyindex list" | INonTuple pyindex

fun is_int_index :: "pyindex \<Rightarrow> bool" where
  "is_int_index (IInt i) = True"
| "is_int_index other = False"

fun int_of_index :: "pyindex \<Rightarrow> int" where
  "int_of_index (IInt i) = i"
| "int_of_index other = 0"

definition pre_indexing :: "'a array \<Rightarrow> inds_arg \<Rightarrow> error + (bool \<times> pyindex list)" where
  "pre_indexing self inds =
     (case inds of
        INonTuple i \<Rightarrow> Inl TypeError
      | ITuple inds0 \<Rightarrow>
          (let inds1 = (if length inds0 < rank self then inds0 @ [IEllipsis] else inds0);
               inds2 =
                 (if IEllipsis \<in> set inds1 then
                    (let fill = replicate (nat (int (rank self) - int (length inds1) + 1))
                                  (ISlice None None None);
                         e = length (takeWhile (\<lambda>i. i \<noteq> IEllipsis) inds1)
                     in take e inds1 @ fill @ drop (e + 1) inds1)
                  else inds1)
           in if length inds2 > rank self then Inl IndexError
              else Inr (list_all is_int_index inds2, inds2)))"

text \<open>
  The result of \<open>self[inds]\<close> is an entry or an array. \<open>pos[:, 0]\<close> raises
  \<open>IndexError\<close> when \<open>pos\<close> is the empty one-dimensional array, that is for rank 0.
  The slicing path \<open>_advanced_getitem\<close> is the parameter \<open>adv\<close>.
\<close>

datatype 'a item = Entry 'a | Sliced "'a array"

definition getitem ::
  "('a array \<Rightarrow> pyindex list \<Rightarrow> error + 'a array) \<Rightarrow> ('a::zero) array \<Rightarrow> inds_arg
     \<Rightarrow> error + 'a item" where
  "getitem adv self inds =
     (case pre_indexing self inds of
        Inl e \<Rightarrow> Inl e
      | Inr (int_only, inds') \<Rightarrow>
          if int_only then
            (case map_err (\<lambda>(i, l). get_qindex l (int_of_index i)) (zip inds' (legs self)) of
               Inl e \<Rightarrow> Inl e
             | Inr pos \<Rightarrow>
                 if pos = [] then Inl IndexError
                 else
                   (case get_block self (map fst pos) False False of
                      Inl e \<Rightarrow> Inl e
                    | Inr (None, self') \<Rightarrow> Inr (Entry 0)
                    | Inr (Some k, self') \<Rightarrow>
                        (case nd_getitem (data self ! k) (map snd pos) of
                           Inl e \<Rightarrow> Inl e
                         | Inr v \<Rightarrow> Inr (Entry v))))
          else (case adv self inds' of Inl e \<Rightarrow> Inl e | Inr r \<Rightarrow> Inr (Sliced r)))"


subsection \<open>Canonical order of the block table\<close>

text \<open>
  \<open>np.lexsort(rows.T)\<close>: the stable permutation that sorts the rows with the last column as
  the primary key, that is by the reversed row in lexicographic order.
\<close>

definition lexsort :: "nat list list \<Rightarrow> nat list" where
  "lexsort rows = sort_key (\<lambda>i. rev (rows ! i)) [0..<length rows]"

text \<open>
  \<open>isort_qdata\<close> works in place: the result is the exception, if any, and the array after
  the call.
\<close>

definition isort_qdata :: "'a array \<Rightarrow> error option \<times> 'a array" where
  "isort_qdata self =
     (if qdata_sorted self then (None, self)
      else if length (qdata self) < 2 then (None, self\<lparr>qdata_sorted := True\<rparr>)
      else
        (let perm = lexsort (qdata self);
             self1 = self\<lparr>qdata := map (\<lambda>p. qdata self ! p) perm\<rparr>
         in case map_err (py_nth (data self)) perm of
              Inl e \<Rightarrow> (Some e, self1)
            | Inr d \<Rightarrow> (None, self1\<lparr>data := d, qdata_sorted := True\<rparr>)))"

subsection \<open>Blockwise binary operations\<close>

text \<open>
  The \<open>while\<close> loop of \<open>ibinary_blockwise\<close>. Its first test reads \<open>aq[i]\<close> and then
  \<open>bq[j]\<close>, each of which raises \<open>IndexError\<close> one past the end of its table.
\<close>

function binary_loop ::
  "(('a::zero) ndarray \<Rightarrow> 'a ndarray \<Rightarrow> 'a ndarray) \<Rightarrow> 'a ndarray list \<Rightarrow> 'a ndarray list
     \<Rightarrow> nat list list \<Rightarrow> nat list list \<Rightarrow> nat \<Rightarrow> nat \<Rightarrow> 'a ndarray list \<Rightarrow> nat list list
     \<Rightarrow> error + ('a ndarray list \<times> nat list list)" where
  "binary_loop func adata bdata aq bq i j dat qdat =
     (if i < length aq \<or> j < length bq then
        (if \<not> i < length aq then Inl IndexError
         else if \<not> j < length bq then Inl IndexError
         else if aq ! i = bq ! j then
           (if \<not> i < length adata then Inl IndexError
            else if \<not> j < length bdata then Inl IndexError
            else binary_loop func adata bdata aq bq (i + 1) (j + 1)
                   (dat @ [func (adata ! i) (bdata ! j)]) (qdat @ [aq ! i]))
         else if j \<ge> length bq \<or> rev (aq ! i) < rev (bq ! j) then
           (if \<not> i < length adata then Inl IndexError
            else binary_loop func adata bdata aq bq (i + 1) j
                   (dat @ [func (adata ! i) (np_zeros_like (adata ! i))]) (qdat @ [aq ! i]))
         else
           (if \<not> j < length bdata then Inl IndexError
            else binary_loop func adata bdata aq bq i (j + 1)
                   (dat @ [func (np_zeros_like (bdata ! j)) (bdata ! j)]) (qdat @ [bq ! j])))
      else Inr (dat, qdat))"
  by pat_completeness auto
termination
  by (relation "measure (\<lambda>(func, adata, bdata, aq, bq, i, j, dat, qdat).
                  (length aq - i) + (length bq - j))") auto

declare binary_loop.simps [simp del]

definition set_dtype_from_data :: "'a array \<Rightarrow> 'a array" where
  "set_dtype_from_data self =
     (if length (data self) > 0 then self\<lparr>dtype := nd_dtype (hd (data self))\<rparr> else self)"

text \<open>
  \<open>ibinary_blockwise\<close> sorts both operands in place, here for a receiver \<open>self\<close>
  and an operand \<open>other\<close> that are two objects. The result is the outcome for
  \<open>self\<close> (the exception, or \<open>self\<close> after the call) and \<open>other\<close> after the call.
\<close>

definition ibinary_blockwise ::
  "(('a::zero) ndarray \<Rightarrow> 'a ndarray \<Rightarrow> 'a ndarray) \<Rightarrow> 'a array \<Rightarrow> 'a array
     \<Rightarrow> (error + 'a array) \<times> 'a array" where
  "ibinary_blockwise func self other =
     (case map_err (\<lambda>(self_leg, other_leg). test_equal self_leg other_leg)
             (zip (legs self) (legs other)) of
        Inl e \<Rightarrow> (Inl e, other)
      | Inr u \<Rightarrow>
          (case isort_qdata self of
             (Some e, self1) \<Rightarrow> (Inl e, other)
           | (None, self1) \<Rightarrow>
               (case isort_qdata other of
                  (Some e, other1) \<Rightarrow> (Inl e, other1)
                | (None, other1) \<Rightarrow>
                    (let adata = data self1; bdata = data other1;
                         aq = qdata self1; bq = qdata other1
                     in if length aq = length bq \<and> aq = bq then
                          (Inr (set_dtype_from_data
                                  (self1\<lparr>data := map (\<lambda>(at, bt). func at bt) (zip adata bdata)\<rparr>)),
                           other1)
                        else
                          (case binary_loop func adata bdata aq bq 0 0 [] [] of
                             Inl e \<Rightarrow> (Inl e, other1)
                           | Inr (dat, qdat) \<Rightarrow>
                               (Inr (set_dtype_from_data (self1\<lparr>data := dat, qdata := qdat\<rparr>)),
                                other1))))))"

text \<open>
  \<open>binary_blockwise\<close> calls \<open>ibinary_blockwise\<close> on a shallow copy \<open>res\<close> of
  \<open>self\<close>, which is a new object, also when \<open>other\<close> is \<open>self\<close>. The result is
  the outcome and the object \<open>other\<close> after the call. Which objects of the caller the
  call changes is the subject of the section on calls below.
\<close>

definition binary_blockwise ::
  "(('a::zero) ndarray \<Rightarrow> 'a ndarray \<Rightarrow> 'a ndarray) \<Rightarrow> 'a array \<Rightarrow> 'a array
     \<Rightarrow> (error + 'a array) \<times> 'a array" where
  "binary_blockwise func self other =
     (let res = copy False self
      in ibinary_blockwise func res other)"

text \<open>The kernel \<open>np.add\<close> on integer blocks of equal shape.\<close>

definition int_add :: "int ndarray \<Rightarrow> int ndarray \<Rightarrow> int ndarray" where
  "int_add s t = s\<lparr>nd_data := map (\<lambda>(x, y). x + y) (zip (nd_data s) (nd_data t))\<rparr>"

subsection \<open>Conjugation\<close>

text \<open>\<open>_conj_leg_label\<close>: the loop collects the pieces of the label that end a name.\<close>

definition conj_label_pieces :: "string \<Rightarrow> string list \<times> nat" where
  "conj_label_pieces label =
     fold (\<lambda>i (res, beg).
             if label ! (i - 1) \<noteq> CHR '')'' \<and> (label ! i = CHR ''.'' \<or> label ! i = CHR '')'')
             then (res @ [take (i - beg) (drop beg label)], i)
             else (res, beg))
          [1..<length label] ([], 0)"

fun join :: "string \<Rightarrow> string list \<Rightarrow> string" where
  "join sep [] = []"
| "join sep [x] = x"
| "join sep (x # y # ys) = x @ sep @ join sep (y # ys)"

fun remove_double_star :: "string \<Rightarrow> string" where
  "remove_double_star (a # b # cs) =
     (if a = CHR ''*'' \<and> b = CHR ''*'' then remove_double_star cs
      else a # remove_double_star (b # cs))"
| "remove_double_star cs = cs"

definition conj_leg_label :: "string \<Rightarrow> error + string" where
  "conj_leg_label label =
     (let (res, beg) = conj_label_pieces label;
          res1 = res @ [drop beg label];
          label1 = join ''*'' res1
      in if label1 = [] then Inl IndexError
         else Inr (remove_double_star
                     (if last label1 \<noteq> CHR '')'' then label1 @ ''*'' else label1)))"

fun conj_labels :: "(string \<times> nat) list \<Rightarrow> (string \<times> nat) list \<Rightarrow> error + (string \<times> nat) list" where
  "conj_labels [] acc = Inr acc"
| "conj_labels ((lab, ax) # rest) acc =
     (case conj_leg_label lab of
        Inl e \<Rightarrow> Inl e
      | Inr lab' \<Rightarrow> conj_labels rest (dict_set acc lab' ax))"

text \<open>
  \<open>conj\<close>, with numpy's kernel \<open>np.conj\<close> as a parameter. \<open>dtype.kind == 'c'\<close> holds
  for the complex element type. With \<open>inplace\<close> the receiver itself is changed and returned.
\<close>

definition conj ::
  "('a ndarray \<Rightarrow> 'a ndarray) \<Rightarrow> bool \<Rightarrow> bool \<Rightarrow> 'a array \<Rightarrow> error + 'a array" where
  "conj np_conj complex_conj inplace self =
     (let res = (if dtype self = Complex128 \<and> complex_conj then
                   (if inplace then iunary_blockwise np_conj self
                    else unary_blockwise np_conj self)
                 else (if inplace then self else copy True self));
          res1 = res\<lparr>qtotal := map uminus (qtotal res)\<rparr>;
          res2 = res1\<lparr>legs := map leg_conj (legs res1)\<rparr>
      in case conj_labels (labels res2) [] of
           Inl e \<Rightarrow> Inl e
         | Inr lb \<Rightarrow> Inr (res2\<lparr>labels := lb\<rparr>))"

subsection \<open>Axes given by index or label\<close>

text \<open>
  \<open>get_leg_index\<close>: \<open>self.labels.get(label, label)\<close> is the string itself for a label that
  is not set, and in Python 2 a string compares greater than any integer, so the first test
  raises for it.
\<close>

datatype axis = AxInt int | AxLabel string

definition get_leg_index :: "'a array \<Rightarrow> axis \<Rightarrow> error + int" where
  "get_leg_index self label =
     (case (case label of
              AxInt i \<Rightarrow> Some i
            | AxLabel s \<Rightarrow> map_option int (map_of (labels self) s)) of
        None \<Rightarrow> Inl ValueError
      | Some res \<Rightarrow>
          if res > int (rank self) then Inl ValueError
          else if res < 0 then Inr (res + int (rank self))
          else Inr res)"

definition get_leg_indices :: "'a array \<Rightarrow> axis list \<Rightarrow> error + int list" where
  "get_leg_indices self labs = map_err (get_leg_index self) labs"

fun is_LegPipe :: "leg \<Rightarrow> bool" where
  "is_LegPipe (LegPipe q c ls m) = True"
| "is_LegPipe (LegCharge q c) = False"

subsection \<open>Splitting legs: the checks of the request\<close>

text \<open>
  The first part of \<open>split_legs\<close>, up to the call of the worker: the axes to split, or the
  \<open>ValueError\<close> that the checks raise. \<open>len(set(axes))\<close> is the number of distinct axes.
\<close>

definition split_legs_axes :: "'a array \<Rightarrow> axis list option \<Rightarrow> error + int list" where
  "split_legs_axes self axes =
     (case (case axes of
              None \<Rightarrow> Inr (map int (filter (\<lambda>i. is_LegPipe (legs self ! i))
                                       [0..<length (legs self)]))
            | Some ax \<Rightarrow>
                (case get_leg_indices self ax of
                   Inl e \<Rightarrow> Inl e
                 | Inr axes1 \<Rightarrow>
                     if length (remdups axes1) = length axes1 then Inl ValueError
                     else Inr axes1)) of
        Inl e \<Rightarrow> Inl e
      | Inr axes1 \<Rightarrow>
          (case map_err (\<lambda>ax. case py_getitem (legs self) ax of
                                Inl e \<Rightarrow> Inl e
                              | Inr l \<Rightarrow> if is_LegPipe l then Inr () else Inl ValueError)
                  axes1 of
             Inl e \<Rightarrow> Inl e
           | Inr u \<Rightarrow> Inr axes1))"

subsection \<open>Slices and reshaping of dense blocks\<close>

text \<open>
  All multi-indices of a shape in row-major order, the block with given entries at them,
  \<open>block[slices]\<close> for one slice per axis (\<open>None\<close> is \<open>slice(None)\<close>, and a list shorter
  than the number of axes selects the remaining axes in full), \<open>reshape\<close>, and the test
  \<open>np.any(np.abs(block) > cutoff)\<close>.
\<close>

fun all_indices :: "nat list \<Rightarrow> nat list list" where
  "all_indices [] = [[]]"
| "all_indices (n # ns) = concat (map (\<lambda>i. map (\<lambda>idx. i # idx) (all_indices ns)) [0..<n])"

definition nd_tabulate :: "nat list \<Rightarrow> (nat list \<Rightarrow> 'a) \<Rightarrow> dtype \<Rightarrow> 'a ndarray" where
  "nd_tabulate shp f dt = \<lparr>nd_shape = shp, nd_data = map f (all_indices shp), nd_dtype = dt\<rparr>"

definition slice_bounds :: "nat \<Rightarrow> (nat \<times> nat) option \<Rightarrow> nat \<times> nat" where
  "slice_bounds n sl =
     (case sl of
        None \<Rightarrow> (0, n)
      | Some (b, e) \<Rightarrow> (min b n, max (min b n) (min e n)))"

definition nd_slice :: "'a ndarray \<Rightarrow> (nat \<times> nat) option list \<Rightarrow> error + 'a ndarray" where
  "nd_slice t sl =
     (if length sl > length (nd_shape t) then Inl IndexError
      else
        (let sl' = sl @ replicate (length (nd_shape t) - length sl) None;
             bounds = map (\<lambda>(n, s). slice_bounds n s) (zip (nd_shape t) sl')
         in Inr (nd_tabulate (map (\<lambda>(b, e). e - b) bounds)
                   (\<lambda>idx. nd_data t !
                       ravel_multi_index (nd_shape t) (map (\<lambda>(i, (b, e)). b + i) (zip idx bounds)))
                   (nd_dtype t))))"

definition nd_reshape :: "'a ndarray \<Rightarrow> nat list \<Rightarrow> error + 'a ndarray" where
  "nd_reshape t shp =
     (if prod_list shp = length (nd_data t) then Inr (t\<lparr>nd_shape := shp\<rparr>) else Inl ValueError)"

definition np_any_abs_gt :: "('a::{abs,ord}) ndarray \<Rightarrow> 'a \<Rightarrow> bool" where
  "np_any_abs_gt t cutoff = list_ex (\<lambda>x. abs x > cutoff) (nd_data t)"

subsection \<open>Leg labels\<close>

text \<open>
  \<open>get_leg_labels\<close> gives one label or \<open>None\<close> per leg, \<open>set_leg_labels\<close> builds the
  dictionary again. The result of \<open>set_leg_labels\<close> is the array after the call.
\<close>

definition get_leg_labels :: "'a array \<Rightarrow> error + string option list" where
  "get_leg_labels self =
     fold (\<lambda>(k, v) lb. case lb of
                          Inl e \<Rightarrow> Inl e
                        | Inr l \<Rightarrow> if v < length l then Inr (l[v := Some k]) else Inl IndexError)
          (labels self) (Inr (replicate (rank self) None))"

fun set_leg_labels_loop ::
  "(nat \<times> string option) list \<Rightarrow> (string \<times> nat) list \<Rightarrow> error + (string \<times> nat) list" where
  "set_leg_labels_loop [] d = Inr d"
| "set_leg_labels_loop ((i, l) # rest) d =
     (if l = Some [] then Inl ValueError
      else (case l of
              None \<Rightarrow> set_leg_labels_loop rest d
            | Some s \<Rightarrow> set_leg_labels_loop rest (dict_set d s i)))"

definition set_leg_labels :: "'a array \<Rightarrow> string option list \<Rightarrow> error + 'a array" where
  "set_leg_labels self labs =
     (if length labs \<noteq> rank self then Inl ValueError
      else (case set_leg_labels_loop (zip [0..<length labs] labs) [] of
              Inl e \<Rightarrow> Inl e
            | Inr d \<Rightarrow> Inr (self\<lparr>labels := d\<rparr>)))"

text \<open>
  \<open>_split_leg_label\<close>. The loop runs over the positions \<open>1, \<dots>, len(label) - 2\<close>; after
  it the code reads the loop variable, which is unbound when the loop had nothing to run
  over. A label \<open>None\<close> has no item \<open>[0]\<close>.
\<close>

definition split_label_pieces :: "string \<Rightarrow> string list \<times> nat \<times> int" where
  "split_label_pieces label =
     fold (\<lambda>i (res, beg, depth).
             let c = label ! i
             in if c = CHR ''('' then (res, beg, depth + 1)
                else if c = CHR '')'' then (res, beg, depth - 1)
                else if c = CHR ''.'' \<and> depth = 0
                     then (res @ [take (i - beg) (drop beg label)], i + 1, depth)
                else (res, beg, depth))
          [1..<length label - 1] ([], 1, 0)"

definition split_leg_label :: "string option \<Rightarrow> nat \<Rightarrow> error + string option list" where
  "split_leg_label lab cnt =
     (case lab of
        None \<Rightarrow> Inl TypeError
      | Some label \<Rightarrow>
          if label = [] then Inl IndexError
          else if hd label \<noteq> CHR ''('' \<or> last label \<noteq> CHR '')'' then Inl ValueError
          else if [1..<length label - 1] = [] then Inl NameError
          else
            (let (res, beg, depth) = split_label_pieces label;
                 res1 = res @ [take (length label - 1 - beg) (drop beg label)]
             in if length res1 \<noteq> cnt then Inl ValueError
                else map_err (\<lambda>r. if r = [] then Inl IndexError
                                    else if hd r = CHR ''?'' then Inr None
                                    else Inr (Some r))
                       res1))"

subsection \<open>Splitting legs\<close>

text \<open>
  Modelled from the spec: the attributes of \<open>LegPipe\<close> that the worker reads. \<open>nlegs\<close> is
  the number of fused legs, and \<open>q_map_slices\<close> gives for a fused sector the rows of
  \<open>q_map\<close> that belong to it, in the order of the table.
\<close>

definition nlegs :: "leg \<Rightarrow> nat" where
  "nlegs p = length (pipe_legs p)"

definition q_map_slices :: "leg \<Rightarrow> nat \<Rightarrow> error + qmap_row list" where
  "q_map_slices p i =
     (if i < block_number p then Inr (filter (\<lambda>(b, e, m, f). f = i) (q_map p))
      else Inl IndexError)"

text \<open>
  \<open>arr[first : first + n] = vals\<close> on a one-dimensional numpy array: the slice is cut at the
  end of the array, a single value is broadcast, and any other length mismatch raises.
\<close>

definition np_set_slice :: "nat list \<Rightarrow> nat \<Rightarrow> nat \<Rightarrow> nat list \<Rightarrow> error + nat list" where
  "np_set_slice arr first n vals =
     (let b = min first (length arr); e = min (first + n) (length arr)
      in if length vals = e - b then Inr (take b arr @ vals @ drop e arr)
         else if length vals = 1 then Inr (take b arr @ replicate (e - b) (hd vals) @ drop e arr)
         else Inl ValueError)"

text \<open>\<open>arr[positions] = vals\<close> for a list of positions and as many values.\<close>

fun np_put :: "nat list \<Rightarrow> nat list \<Rightarrow> nat list \<Rightarrow> error + nat list" where
  "np_put arr [] vals = Inr arr"
| "np_put arr (p # ps) [] = Inl ValueError"
| "np_put arr (p # ps) (v # vs) =
     (if p < length arr then np_put (arr[p := v]) ps vs else Inl IndexError)"

text \<open>
  The innermost loop of the worker, over the split axes: it writes the member sectors into
  the row, their sizes into the new block shape, and the range of the block to cut out.
\<close>

fun split_set_slices ::
  "(nat \<times> (nat \<times> nat) \<times> qmap_row \<times> leg) list \<Rightarrow> nat list \<Rightarrow> nat list
     \<Rightarrow> (nat \<times> nat) option list
     \<Rightarrow> error + (nat list \<times> nat list \<times> (nat \<times> nat) option list)" where
  "split_set_slices [] qdata_row new_block_shape block_slice =
     Inr (qdata_row, new_block_shape, block_slice)"
| "split_set_slices ((a, (first, n), (b, e, block_qind, f), pipe) # rest) qdata_row
       new_block_shape block_slice =
     (case np_set_slice qdata_row first n block_qind of
        Inl err \<Rightarrow> Inl err
      | Inr qdata_row' \<Rightarrow>
          (case map_err (\<lambda>(l, qi). case py_nth (qind l) qi of
                                      Inl err \<Rightarrow> Inl err
                                    | Inr (s, t, c) \<Rightarrow> Inr (t - s))
                  (zip (pipe_legs pipe) block_qind) of
             Inl err \<Rightarrow> Inl err
           | Inr sizes \<Rightarrow>
               (case np_set_slice new_block_shape first n sizes of
                  Inl err \<Rightarrow> Inl err
                | Inr new_block_shape' \<Rightarrow>
                    if a < length block_slice
                    then split_set_slices rest qdata_row' new_block_shape'
                           (block_slice[a := Some (b, e)])
                    else Inl IndexError)))"

text \<open>
  The loop over \<open>itertools.product(*qmap_slices)\<close> for one stored block. The state is the
  row, the new block shape, the ranges to cut out and the blocks and rows collected so far.
\<close>

fun split_block ::
  "('a::{abs,ord}) \<Rightarrow> 'a ndarray \<Rightarrow> nat list \<Rightarrow> (nat \<times> nat) list \<Rightarrow> leg list
     \<Rightarrow> qmap_row list list
     \<Rightarrow> nat list \<times> nat list \<times> (nat \<times> nat) option list \<times> 'a ndarray list \<times> nat list list
     \<Rightarrow> error + (nat list \<times> nat list \<times> (nat \<times> nat) option list \<times> 'a ndarray list
                 \<times> nat list list)" where
  "split_block cutoff old_block split_axes new_split_slices pipes [] st = Inr st"
| "split_block cutoff old_block split_axes new_split_slices pipes (qmap_rows # others)
       (qdata_row, new_block_shape, block_slice, dat, qdat) =
     (case split_set_slices (zip split_axes (zip new_split_slices (zip qmap_rows pipes)))
             qdata_row new_block_shape block_slice of
        Inl err \<Rightarrow> Inl err
      | Inr (qdata_row', new_block_shape', block_slice') \<Rightarrow>
          (case nd_slice old_block block_slice' of
             Inl err \<Rightarrow> Inl err
           | Inr piece \<Rightarrow>
               (case nd_reshape piece new_block_shape' of
                  Inl err \<Rightarrow> Inl err
                | Inr new_block \<Rightarrow>
                    if \<not> np_any_abs_gt new_block cutoff
                    then split_block cutoff old_block split_axes new_split_slices pipes others
                           (qdata_row', new_block_shape', block_slice', dat, qdat)
                    else split_block cutoff old_block split_axes new_split_slices pipes others
                           (qdata_row', new_block_shape', block_slice',
                            dat @ [new_block], qdat @ [qdata_row']))))"

text \<open>
  The loop over the stored blocks. \<open>tmp_qdata\<close> and \<open>new_block_shape\<close> start as
  \<open>np.empty\<close> arrays; the model fills them with zeros.
\<close>

fun split_blocks ::
  "('a::{abs,ord}) \<Rightarrow> nat list \<Rightarrow> nat list \<Rightarrow> nat list \<Rightarrow> nat list \<Rightarrow> (nat \<times> nat) list
     \<Rightarrow> leg list \<Rightarrow> ('a ndarray \<times> nat list) list
     \<Rightarrow> nat list \<times> (nat \<times> nat) option list \<times> 'a ndarray list \<times> nat list list
     \<Rightarrow> error + ('a ndarray list \<times> nat list list)" where
  "split_blocks cutoff split_axes nonsplit_axes new_nonsplit_axes new_split_axes_first
       new_split_slices pipes [] (new_block_shape, block_slice, dat, qdat) = Inr (dat, qdat)"
| "split_blocks cutoff split_axes nonsplit_axes new_nonsplit_axes new_split_axes_first
       new_split_slices pipes ((old_block, qdata_row) # others)
       (new_block_shape, block_slice, dat, qdat) =
     (case map_err (py_nth qdata_row) new_split_axes_first of
        Inl err \<Rightarrow> Inl err
      | Inr fused \<Rightarrow>
          (case map_err (\<lambda>(p, i). q_map_slices p i) (zip pipes fused) of
             Inl err \<Rightarrow> Inl err
           | Inr qmap_slices \<Rightarrow>
               (case map_err (py_nth (nd_shape old_block)) nonsplit_axes of
                  Inl err \<Rightarrow> Inl err
                | Inr kept \<Rightarrow>
                    (case np_put new_block_shape new_nonsplit_axes kept of
                       Inl err \<Rightarrow> Inl err
                     | Inr new_block_shape' \<Rightarrow>
                         (case split_block cutoff old_block split_axes new_split_slices pipes
                                 (product_lists qmap_slices)
                                 (qdata_row, new_block_shape', block_slice, dat, qdat) of
                            Inl err \<Rightarrow> Inl err
                          | Inr (qdata_row', new_block_shape'', block_slice', dat', qdat') \<Rightarrow>
                              split_blocks cutoff split_axes nonsplit_axes new_nonsplit_axes
                                new_split_axes_first new_split_slices pipes others
                                (new_block_shape'', block_slice', dat', qdat'))))))"

text \<open>
  \<open>legs[a:a + 1] = legs[a].legs\<close> for the split axes from the last to the first. A leg that
  is not a pipe has no attribute \<open>legs\<close>.
\<close>

fun replace_pipes :: "nat list \<Rightarrow> leg list \<Rightarrow> error + leg list" where
  "replace_pipes [] ls = Inr ls"
| "replace_pipes (a # as) ls =
     (if \<not> a < length ls then Inl IndexError
      else if \<not> is_LegPipe (ls ! a) then Inl AttributeError
      else replace_pipes as (take a ls @ pipe_legs (ls ! a) @ drop (a + 1) ls))"

definition split_legs_worker ::
  "('a::{abs,ord}) array \<Rightarrow> nat list \<Rightarrow> 'a \<Rightarrow> error + 'a array" where
  "split_legs_worker self split_axes0 cutoff =
     (let split_axes = sort split_axes0
      in case map_err (py_nth (legs self)) split_axes of
           Inl err \<Rightarrow> Inl err
         | Inr pipes \<Rightarrow>
             (let nonsplit_axes = filter (\<lambda>i. i \<notin> set split_axes) [0..<rank self];
                  shifted = fold (\<lambda>a v. map (\<lambda>(k, x). if a + 1 \<le> k
                                                          then x + nlegs (legs self ! a) - 1 else x)
                                            (zip [0..<length v] v))
                              (rev split_axes) [0..<rank self]
              in case map_err (py_nth shifted) split_axes of
                   Inl err \<Rightarrow> Inl err
                 | Inr new_split_axes_first \<Rightarrow>
                     (let new_split_slices = zip new_split_axes_first (map nlegs pipes)
                      in case map_err (py_nth shifted) nonsplit_axes of
                           Inl err \<Rightarrow> Inl err
                         | Inr new_nonsplit_axes \<Rightarrow>
                             (case replace_pipes (rev split_axes) (legs (copy False self)) of
                                Inl err \<Rightarrow> Inl err
                              | Inr legs' \<Rightarrow>
                                  (let res = (copy False self)\<lparr>legs := legs',
                                                                 shape := map ind_len legs'\<rparr>
                                   in case map_err
                                             (\<lambda>row.
                                                case map_err (py_nth row) nonsplit_axes of
                                                  Inl err \<Rightarrow> Inl err
                                                | Inr kept \<Rightarrow>
                                                    (case np_put (replicate (rank res) 0)
                                                            new_nonsplit_axes kept of
                                                       Inl err \<Rightarrow> Inl err
                                                     | Inr tmp \<Rightarrow>
                                                         (case map_err (py_nth row) split_axes of
                                                            Inl err \<Rightarrow> Inl err
                                                          | Inr fused \<Rightarrow>
                                                              np_put tmp new_split_axes_first fused)))
                                             (qdata self) of
                                        Inl err \<Rightarrow> Inl err
                                      | Inr tmp_qdata \<Rightarrow>
                                          (case split_blocks cutoff split_axes nonsplit_axes
                                                  new_nonsplit_axes new_split_axes_first
                                                  new_split_slices pipes
                                                  (zip (data self) tmp_qdata)
                                                  (replicate (rank res) 0,
                                                   replicate (rank self) None, [], []) of
                                             Inl err \<Rightarrow> Inl err
                                           | Inr (dat, qdat) \<Rightarrow>
                                               if length dat > 0
                                               then Inr (res\<lparr>qdata := qdat, qdata_sorted := False,
                                                             data := dat\<rparr>)
                                               else Inr (res\<lparr>qdata := [], qdata_sorted := True,
                                                             data := dat\<rparr>)))))))"

text \<open>
  \<open>labels[a:a + 1] = split labels\<close> for the axes in the order given; the positions are
  those of the labels of \<open>self\<close>, also after an earlier axis has put several labels in
  the place of one.
\<close>

fun split_labels ::
  "'a array \<Rightarrow> nat list \<Rightarrow> string option list \<Rightarrow> error + string option list" where
  "split_labels self [] labs = Inr labs"
| "split_labels self (a # as) labs =
     (if \<not> a < length labs then Inl IndexError
      else if \<not> a < length (legs self) then Inl IndexError
      else (case split_leg_label (labs ! a) (nlegs (legs self ! a)) of
              Inl err \<Rightarrow> Inl err
            | Inr parts \<Rightarrow> split_labels self as (take a labs @ parts @ drop (a + 1) labs)))"

text \<open>
  \<open>split_legs\<close>. The worker is modelled for axes that are legs of \<open>self\<close> counted from
  the front, which is what \<open>get_leg_indices\<close> returns for an axis from \<open>-rank\<close> on.
\<close>

definition split_legs ::
  "('a::{abs,ord}) array \<Rightarrow> axis list option \<Rightarrow> 'a \<Rightarrow> error + 'a array" where
  "split_legs self axes cutoff =
     (case split_legs_axes self axes of
        Inl err \<Rightarrow> Inl err
      | Inr axes1 \<Rightarrow>
          if length axes1 = 0 then Inr (copy True self)
          else
            (case split_legs_worker self (map nat axes1) cutoff of
               Inl err \<Rightarrow> Inl err
             | Inr res \<Rightarrow>
                 (case get_leg_labels self of
                    Inl err \<Rightarrow> Inl err
                  | Inr labs \<Rightarrow>
                      (case split_labels self (map nat axes1) labs of
                         Inl err \<Rightarrow> Inl err
                       | Inr labs' \<Rightarrow> set_leg_labels res labs'))))"

subsection \<open>Invariants of an array\<close>

text \<open>
  A leg is well formed when its sectors are non-empty, contiguous and start at 0. An array
  is well formed when it has at least one leg (the constructor's \<open>test_sanity\<close> needs a
  key to sort by), its shape is that of its legs and the block table is consistent: one row
  per block, one in-range sector per axis in each row, no row twice, and each block of the
  shape of its sectors and of the element type of the array.
\<close>

fun contiguous :: "nat \<Rightarrow> qind_row list \<Rightarrow> bool" where
  "contiguous s [] = True"
| "contiguous s ((b, e, c) # rows) = (b = s \<and> b < e \<and> contiguous e rows)"

definition leg_ok :: "nat \<Rightarrow> leg \<Rightarrow> bool" where
  "leg_ok n l = (contiguous 0 (qind l) \<and> list_all (\<lambda>(b, e, c). length c = n) (qind l))"

definition row_ok :: "'a array \<Rightarrow> nat list \<Rightarrow> bool" where
  "row_ok self row = list_all2 (\<lambda>qi l. qi < block_number l) row (legs self)"

definition array_ok :: "'a array \<Rightarrow> bool" where
  "array_ok self =
     (legs self \<noteq> [] \<and>
      list_all (leg_ok (length (chinfo self))) (legs self) \<and>
      shape self = map ind_len (legs self) \<and>
      length (qtotal self) = length (chinfo self) \<and>
      length (data self) = length (qdata self) \<and>
      distinct (qdata self) \<and>
      list_all (row_ok self) (qdata self) \<and>
      list_all2 (\<lambda>t row. get_block_shape self row = Inr (nd_shape t) \<and>
                           length (nd_data t) = prod_list (nd_shape t) \<and>
                           nd_dtype t = dtype self)
        (data self) (qdata self))"

text \<open>The sorted flag of an array is right when the flagged table is in canonical order.\<close>

definition flag_ok :: "'a array \<Rightarrow> bool" where
  "flag_ok self = (qdata_sorted self \<longrightarrow> sorted (map rev (qdata self)))"

text \<open>The charge rule: every stored block has the total charge of the array.\<close>

definition charge_inv :: "'a array \<Rightarrow> bool" where
  "charge_inv self = list_all (\<lambda>row. get_block_charge self row = Inr (qtotal self)) (qdata self)"

subsection \<open>Sanity check and constructor\<close>

text \<open>
  \<open>test_sanity\<close>. Modelled from the spec: the sanity check of a leg, \<open>LegCharge.test_sanity\<close>
  together with the comparison of its charge group with that of the array, is \<open>leg_ok\<close>
  (non-empty contiguous sectors from 0, one charge per modulus). The rows of \<open>_qdata\<close> are
  non-negative by their type here. For a table flagged sorted the check calls
  \<open>np.lexsort(self._qdata.T)\<close>, which has one key per axis and raises \<open>TypeError\<close>
  when there is no key, that is for an array without legs.
\<close>

definition test_sanity :: "'a array \<Rightarrow> error + unit" where
  "test_sanity self =
     (if shape self \<noteq> map ind_len (legs self) then Inl ValueError
      else if list_ex (\<lambda>d. dtype self \<noteq> nd_dtype d) (data self) then Inl ValueError
      else if list_ex (\<lambda>l. \<not> leg_ok (length (chinfo self)) l) (legs self) then Inl ValueError
      else if length (qdata self) \<noteq> stored_blocks self
              \<or> list_ex (\<lambda>row. length row \<noteq> rank self) (qdata self) then Inl ValueError
      else if list_ex (\<lambda>row. list_ex (\<lambda>(qi, l). qi \<ge> block_number l) (zip row (legs self)))
                (qdata self) then Inl ValueError
      else if qdata_sorted self then
        (if rank self = 0 then Inl TypeError
         else if lexsort (qdata self) \<noteq> [0..<length (qdata self)] then Inl ValueError
         else Inr ())
      else Inr ())"

text \<open>The constructor \<open>Array(chargeinfo, legcharges, dtype, qtotal)\<close>.\<close>

definition Array :: "nat list \<Rightarrow> leg list \<Rightarrow> dtype \<Rightarrow> int list \<Rightarrow> error + 'a array" where
  "Array chargeinfo legcharges dt qt =
     (let self = \<lparr>chinfo = chargeinfo, legs = legcharges, shape = map ind_len legcharges,
                   dtype = dt, qtotal = make_valid chargeinfo qt, labels = [],
                   data = [], qdata = [], qdata_sorted = True\<rparr>
      in case test_sanity self of Inl e \<Rightarrow> Inl e | Inr u \<Rightarrow> Inr self)"

text \<open>\<open>np.find_common_type([s, t], [])\<close> on the four element types.\<close>

fun dtype_level :: "dtype \<Rightarrow> nat" where
  "dtype_level Bool8 = 0"
| "dtype_level Int64 = 1"
| "dtype_level Float64 = 2"
| "dtype_level Complex128 = 3"

definition find_common_type :: "dtype \<Rightarrow> dtype \<Rightarrow> dtype" where
  "find_common_type s t = (if dtype_level s \<le> dtype_level t then t else s)"

subsection \<open>Contraction: the merge of two sorted key lists\<close>

text \<open>
  \<open>_iter_common_sorted(a, b, a_idx, b_idx)\<close>. \<open>iter_loop\<close> is the \<open>while\<close> loop with the
  current \<open>i\<close> and \<open>j\<close> and what is left in the two iterators; when \<open>next\<close> finds an
  iterator empty, the two \<open>for\<close> loops after the \<open>try\<close> run over what is left
  (\<open>iter_rest\<close>). With an empty index list the first \<open>next\<close> ends the generator.
\<close>

definition iter_rest ::
  "nat list \<Rightarrow> nat list \<Rightarrow> nat \<Rightarrow> nat list \<Rightarrow> nat \<Rightarrow> nat list \<Rightarrow> (nat \<times> nat) list" where
  "iter_rest a b i a_it j b_it =
     (let i' = (if a_it = [] then i else last a_it)
      in map (\<lambda>k. (k, j)) (filter (\<lambda>k. a ! k = b ! j) a_it)
         @ map (\<lambda>k. (i', k)) (filter (\<lambda>k. a ! i' = b ! k) b_it))"

fun iter_loop ::
  "nat list \<Rightarrow> nat list \<Rightarrow> nat \<Rightarrow> nat list \<Rightarrow> nat \<Rightarrow> nat list \<Rightarrow> (nat \<times> nat) list" where
  "iter_loop a b i a_it j b_it =
     (if a ! i < b ! j then
        (case a_it of
           [] \<Rightarrow> iter_rest a b i [] j b_it
         | i' # a_it' \<Rightarrow> iter_loop a b i' a_it' j b_it)
      else if b ! j < a ! i then
        (case b_it of
           [] \<Rightarrow> iter_rest a b i a_it j []
         | j' # b_it' \<Rightarrow> iter_loop a b i a_it j' b_it')
      else
        (i, j) #
        (case a_it of
           [] \<Rightarrow> iter_rest a b i [] j b_it
         | i' # a_it' \<Rightarrow>
             (case b_it of
                [] \<Rightarrow> iter_rest a b i' a_it' j []
              | j' # b_it' \<Rightarrow> iter_loop a b i' a_it' j' b_it')))"

declare iter_loop.simps [simp del]

definition iter_common_sorted ::
  "nat list \<Rightarrow> nat list \<Rightarrow> nat list \<Rightarrow> nat list \<Rightarrow> (nat \<times> nat) list" where
  "iter_common_sorted a b a_idx b_idx =
     (case a_idx of
        [] \<Rightarrow> []
      | i # a_it \<Rightarrow> (case b_idx of [] \<Rightarrow> [] | j # b_it \<Rightarrow> iter_loop a b i a_it j b_it))"

subsection \<open>Contraction: \<open>tensordot\<close>\<close>

text \<open>
  \<open>np.cumprod\<close>, the strides over the sector counts of the contracted legs of \<open>a\<close> without
  the last, and the contracted part of a row as one integer.
\<close>

fun cumprod :: "nat \<Rightarrow> nat list \<Rightarrow> nat list" where
  "cumprod p [] = []"
| "cumprod p (x # xs) = (p * x) # cumprod (p * x) xs"

definition encode_qdata :: "nat list \<Rightarrow> nat list \<Rightarrow> nat" where
  "encode_qdata stride cols = sum_list (map (\<lambda>(c, s). c * s) (zip cols stride))"

text \<open>
  Modelled from the spec: \<open>charges._find_row_differences\<close>, the positions where a row of a
  table differs from the row before it, with the first and the last position of the table.
\<close>

definition find_row_differences :: "nat list list \<Rightarrow> nat list" where
  "find_row_differences rows =
     (if rows = [] then [0]
      else [0] @ filter (\<lambda>i. rows ! (i - 1) \<noteq> rows ! i) [1..<length rows] @ [length rows])"

text \<open>
  The result of \<open>_tensordot_pre_worker\<close> for one operand: the blocks and their contracted
  keys in sorted order, the kept row and the kept charge of every group, and the positions
  where the groups begin and end.
\<close>

record 'a pre_result =
  pre_data :: "'a ndarray list"
  pre_qdata_sum :: "nat list"
  pre_qdata_keep :: "nat list list"
  pre_charges_keep :: "int list list"
  pre_slices :: "nat list"

text \<open>
  The kept charge of a group is the canonical sum of the charges of its kept sectors. For an
  operand without a kept leg numpy sums over an empty list; the model reads this sum as the
  zero charge.
\<close>

definition charges_keep :: "nat list \<Rightarrow> leg list \<Rightarrow> nat list list \<Rightarrow> error + int list list" where
  "charges_keep mods ls keep =
     map_err (\<lambda>row. case map_err (\<lambda>(l, qi). get_charge l qi) (zip ls row) of
                       Inl e \<Rightarrow> Inl e
                     | Inr qs \<Rightarrow> Inr (make_valid mods (charge_sum (length mods) qs)))
             keep"

definition tensordot_pre_worker ::
  "'a array \<Rightarrow> 'a array \<Rightarrow> nat \<Rightarrow> nat \<Rightarrow> error + ('a pre_result \<times> 'a pre_result)" where
  "tensordot_pre_worker a b cut_a cut_b =
     (let stride = cumprod 1 (1 # map block_number (butlast (drop cut_a (legs a))));
          a_qdata_sum = map (\<lambda>row. encode_qdata stride (drop cut_a row)) (qdata a);
          a_sort = lexsort (map (\<lambda>row. encode_qdata stride (drop cut_a row) # take cut_a row)
                              (qdata a));
          a_qdata_keep = map (\<lambda>i. take cut_a (qdata a ! i)) a_sort;
          a_qdata_sum' = map (\<lambda>i. a_qdata_sum ! i) a_sort
      in case map_err (py_nth (data a)) a_sort of
           Inl e \<Rightarrow> Inl e
         | Inr a_data \<Rightarrow>
             (let b_qdata_sum = map (\<lambda>row. encode_qdata stride (take cut_b row)) (qdata b);
                  b_sort = (if \<not> qdata_sorted b then
                              lexsort (map (\<lambda>row. encode_qdata stride (take cut_b row)
                                                    # drop cut_b row) (qdata b))
                            else [0..<length (qdata b)]);
                  b_qdata_keep = map (\<lambda>i. drop cut_b (qdata b ! i)) b_sort;
                  b_qdata_sum' = map (\<lambda>i. b_qdata_sum ! i) b_sort
              in case (if \<not> qdata_sorted b then map_err (py_nth (data b)) b_sort
                       else Inr (data b)) of
                   Inl e \<Rightarrow> Inl e
                 | Inr b_data \<Rightarrow>
                     (let a_slices = find_row_differences a_qdata_keep;
                          b_slices = find_row_differences b_qdata_keep;
                          a_keep = map (\<lambda>i. a_qdata_keep ! i) (butlast a_slices);
                          b_keep = map (\<lambda>i. b_qdata_keep ! i) (butlast b_slices)
                      in case charges_keep (chinfo a) (take cut_a (legs a)) a_keep of
                           Inl e \<Rightarrow> Inl e
                         | Inr a_charges \<Rightarrow>
                             (case charges_keep (chinfo a) (drop cut_b (legs b)) b_keep of
                                Inl e \<Rightarrow> Inl e
                              | Inr b_charges \<Rightarrow>
                                  Inr (\<lparr>pre_data = a_data, pre_qdata_sum = a_qdata_sum',
                                         pre_qdata_keep = a_keep, pre_charges_keep = a_charges,
                                         pre_slices = a_slices\<rparr>,
                                       \<lparr>pre_data = b_data, pre_qdata_sum = b_qdata_sum',
                                         pre_qdata_keep = b_keep, pre_charges_keep = b_charges,
                                         pre_slices = b_slices\<rparr>)))))"

text \<open>
  For the group \<open>row_a\<close> of \<open>a\<close> and the group \<open>col_b\<close> of \<open>b\<close>: whether their kept
  charges add up to the total charge of the result, and the pairs of blocks that the merge of
  their contracted keys finds.
\<close>

definition charge_compatible ::
  "nat list \<Rightarrow> int list \<Rightarrow> 'a pre_result \<Rightarrow> 'a pre_result \<Rightarrow> nat \<Rightarrow> nat \<Rightarrow> bool" where
  "charge_compatible mods qt ap bp row_a col_b =
     (make_valid mods (map (\<lambda>(x, y). x + y)
                         (zip (pre_charges_keep bp ! col_b) (pre_charges_keep ap ! row_a))) = qt)"

definition common_blocks :: "'a pre_result \<Rightarrow> 'a pre_result \<Rightarrow> nat \<Rightarrow> nat \<Rightarrow> (nat \<times> nat) list" where
  "common_blocks ap bp row_a col_b =
     iter_common_sorted (pre_qdata_sum ap) (pre_qdata_sum bp)
       [pre_slices ap ! row_a ..< pre_slices ap ! (row_a + 1)]
       [pre_slices bp ! col_b ..< pre_slices bp ! (col_b + 1)]"

text \<open>
  The sum of the contracted blocks of a group pair; \<open>None\<close> when there is no pair of blocks.
  \<open>tdot\<close> is numpy's kernel \<open>np.tensordot(s, t, axes)\<close> and \<open>add\<close> the in-place sum of two
  blocks, both parameters. \<open>np.asarray(block, dtype)\<close> gives the block the element type.
\<close>

definition block_sum ::
  "('a ndarray \<Rightarrow> 'a ndarray \<Rightarrow> nat \<Rightarrow> 'a ndarray) \<Rightarrow> ('a ndarray \<Rightarrow> 'a ndarray \<Rightarrow> 'a ndarray)
     \<Rightarrow> dtype \<Rightarrow> nat \<Rightarrow> 'a pre_result \<Rightarrow> 'a pre_result \<Rightarrow> (nat \<times> nat) list
     \<Rightarrow> 'a ndarray option" where
  "block_sum tdot add dt axes ap bp pairs =
     (case pairs of
        [] \<Rightarrow> None
      | (k1, k2) # rest \<Rightarrow>
          Some (fold (\<lambda>(k1, k2) acc. add acc (tdot (pre_data ap ! k1) (pre_data bp ! k2) axes))
                  rest
                  ((tdot (pre_data ap ! k1) (pre_data bp ! k2) axes)\<lparr>nd_dtype := dt\<rparr>)))"

text \<open>
  The two nested loops of \<open>_tensordot_worker\<close>, the outer over the groups of \<open>b\<close> and the
  inner over the groups of \<open>a\<close>: the rows and blocks of the result in the order in which
  they are appended.
\<close>

definition worker_blocks ::
  "('a ndarray \<Rightarrow> 'a ndarray \<Rightarrow> nat \<Rightarrow> 'a ndarray) \<Rightarrow> ('a ndarray \<Rightarrow> 'a ndarray \<Rightarrow> 'a ndarray)
     \<Rightarrow> nat list \<Rightarrow> int list \<Rightarrow> dtype \<Rightarrow> nat \<Rightarrow> 'a pre_result \<Rightarrow> 'a pre_result
     \<Rightarrow> (nat list \<times> 'a ndarray) list" where
  "worker_blocks tdot add mods qt dt axes ap bp =
     concat (map (\<lambda>col_b.
       concat (map (\<lambda>row_a.
         if \<not> charge_compatible mods qt ap bp row_a col_b then []
         else (case block_sum tdot add dt axes ap bp (common_blocks ap bp row_a col_b) of
                 None \<Rightarrow> []
               | Some blk \<Rightarrow> [(pre_qdata_keep ap ! row_a @ pre_qdata_keep bp ! col_b, blk)]))
         [0..<length (pre_qdata_keep ap)]))
       [0..<length (pre_qdata_keep bp)])"

definition tensordot_worker ::
  "('a ndarray \<Rightarrow> 'a ndarray \<Rightarrow> nat \<Rightarrow> 'a ndarray) \<Rightarrow> ('a ndarray \<Rightarrow> 'a ndarray \<Rightarrow> 'a ndarray)
     \<Rightarrow> 'a array \<Rightarrow> 'a array \<Rightarrow> nat \<Rightarrow> error + 'a array" where
  "tensordot_worker tdot add a b axes =
     (let cut_a = rank a - axes; cut_b = axes
      in case tensordot_pre_worker a b cut_a cut_b of
           Inl e \<Rightarrow> Inl e
         | Inr (ap, bp) \<Rightarrow>
             (let qt = make_valid (chinfo a) (map (\<lambda>(x, y). x + y) (zip (qtotal a) (qtotal b)));
                  dt = find_common_type (dtype a) (dtype b);
                  res_blocks = worker_blocks tdot add (chinfo a) qt dt axes ap bp
              in case Array (chinfo a) (take cut_a (legs a) @ drop cut_b (legs b)) dt qt of
                   Inl e \<Rightarrow> Inl e
                 | Inr res \<Rightarrow>
                     if length res_blocks = 0 then Inr res
                     else
                       (let res' = res\<lparr>qdata := map fst res_blocks, qdata_sorted := True,
                                       data := map snd res_blocks\<rparr>
                        in case test_sanity res' of Inl e \<Rightarrow> Inl e | Inr u \<Rightarrow> Inr res')))"

subsection \<open>Calls on objects\<close>

text \<open>
  Arrays are objects: an in-place method changes the object it is called on, and one object
  can be passed to a call twice. A store lists the Array objects of the caller; an address is
  a position in it. A call of a value-returning method names its Array arguments by their
  addresses. Its result is the exception or the address of the returned array, which is a
  new object at the end of the store, and the store after the call. The methods called here
  rebind attributes of an object and never write into a list or a numpy array that two
  objects share, so an object changes as a whole. In \<open>binary_blockwise\<close> the statement
  \<open>other.isort_qdata()\<close> changes the object \<open>other\<close>, which is the receiver itself in
  \<open>a + a\<close>.
\<close>

type_synonym 'a store = "'a array list"

datatype ('a, 's) call =
    Copy bool nat
  | ZerosLike nat
  | UnaryBlockwise "'a ndarray \<Rightarrow> 'a ndarray" nat
  | Mul "'a ndarray \<Rightarrow> 's \<Rightarrow> 'a ndarray" nat "'s operand"
  | BinaryBlockwise "'a ndarray \<Rightarrow> 'a ndarray \<Rightarrow> 'a ndarray" nat nat

fun exec :: "(('a::zero), ('s::zero)) call \<Rightarrow> 'a store \<Rightarrow> (error + nat) \<times> 'a store" where
  "exec (Copy deep p) h = (Inr (length h), h @ [copy deep (h ! p)])"
| "exec (ZerosLike p) h = (Inr (length h), h @ [zeros_like (h ! p)])"
| "exec (UnaryBlockwise func p) h = (Inr (length h), h @ [unary_blockwise func (h ! p)])"
| "exec (Mul np_multiply p other) h =
     (case mul np_multiply (h ! p) other of
        Inl e \<Rightarrow> (Inl e, h)
      | Inr res \<Rightarrow> (Inr (length h), h @ [res]))"
| "exec (BinaryBlockwise func p po) h =
     (case binary_blockwise func (h ! p) (h ! po) of
        (Inl e, other') \<Rightarrow> (Inl e, h[po := other'])
      | (Inr res, other') \<Rightarrow> (Inr (length h), h[po := other'] @ [res]))"

text \<open>The Array arguments of a call, and those among them that the call sorts in place.\<close>

fun operands :: "('a, 's) call \<Rightarrow> nat list" where
  "operands (Copy deep p) = [p]"
| "operands (ZerosLike p) = [p]"
| "operands (UnaryBlockwise func p) = [p]"
| "operands (Mul np_multiply p other) = [p]"
| "operands (BinaryBlockwise func p po) = [p, po]"

fun sorted_operands :: "('a, 's) call \<Rightarrow> nat list" where
  "sorted_operands (BinaryBlockwise func p po) = [po]"
| "sorted_operands c = []"

text \<open>
  An array is fully well formed when it is well formed, its sorted flag is right and it
  satisfies the charge rule.
\<close>

definition well_formed :: "'a array \<Rightarrow> bool" where
  "well_formed self = (array_ok self \<and> flag_ok self \<and> charge_inv self)"

text \<open>
  What the calls assume of the numpy functions they are given. An elementwise function of
  one block returns a block of the same shape and size, of an element type that depends on
  the element type of the argument only; an elementwise function of two blocks of equal
  shape does the same. The two operands of a binary call are to have the same charge group
  and element type.
\<close>

definition unary_kernel :: "('a ndarray \<Rightarrow> 'a ndarray) \<Rightarrow> bool" where
  "unary_kernel func =
     (\<forall>s. nd_shape (func s) = nd_shape s \<and> length (nd_data (func s)) = length (nd_data s)
          \<and> (\<forall>t. nd_dtype t = nd_dtype s \<longrightarrow> nd_dtype (func t) = nd_dtype (func s)))"

definition binary_kernel :: "('a ndarray \<Rightarrow> 'a ndarray \<Rightarrow> 'a ndarray) \<Rightarrow> bool" where
  "binary_kernel func =
     (\<forall>s t. (nd_shape s = nd_shape t \<and> length (nd_data s) = length (nd_data t)
              \<longrightarrow> nd_shape (func s t) = nd_shape s
                \<and> length (nd_data (func s t)) = length (nd_data s))
          \<and> (\<forall>s' t'. nd_dtype s' = nd_dtype s \<and> nd_dtype t' = nd_dtype t
                 \<longrightarrow> nd_dtype (func s' t') = nd_dtype (func s t)))"

fun kernels_ok :: "('a, 's) call \<Rightarrow> bool" where
  "kernels_ok (UnaryBlockwise func p) = unary_kernel func"
| "kernels_ok (Mul np_multiply p (Scalar c)) = unary_kernel (\<lambda>t. np_multiply t c)"
| "kernels_ok (BinaryBlockwise func p po) = binary_kernel func"
| "kernels_ok c = True"

fun operands_ok :: "('a, 's) call \<Rightarrow> 'a store \<Rightarrow> bool" where
  "operands_ok (BinaryBlockwise func p po) h =
     (chinfo (h ! po) = chinfo (h ! p) \<and> dtype (h ! po) = dtype (h ! p))"
| "operands_ok c h = True"

subsection \<open>Example arrays\<close>

text \<open>
  One charge modulo 2. \<open>leg2\<close> has one index of charge 0 and one of charge 1.
  \<open>ex_vec\<close> is the vector \<open>(0, 5)\<close> of total charge 1, \<open>ex_eye\<close> the 2 by 2 identity matrix with
  legs \<open>leg2\<close> and its conjugate and total charge 0.
\<close>

definition leg2 :: leg where
  "leg2 = LegCharge [(0, 1, [0]), (1, 2, [1])] 1"

definition blk :: "nat list \<Rightarrow> int list \<Rightarrow> int ndarray" where
  "blk shp xs = \<lparr>nd_shape = shp, nd_data = xs, nd_dtype = Int64\<rparr>"

definition ex_vec :: "int array" where
  "ex_vec = \<lparr>chinfo = [2], legs = [leg2], shape = [2], dtype = Int64, qtotal = [1],
             labels = [], data = [blk [1] [5]], qdata = [[1]], qdata_sorted = True\<rparr>"

definition ex_eye :: "int array" where
  "ex_eye = \<lparr>chinfo = [2], legs = [leg2, leg_conj leg2], shape = [2, 2], dtype = Int64,
             qtotal = [0], labels = [], data = [blk [1, 1] [1], blk [1, 1] [1]],
             qdata = [[0, 0], [1, 1]], qdata_sorted = True\<rparr>"

text \<open>
  \<open>ex_a\<close> and \<open>ex_b\<close> have the legs and total charge of \<open>ex_eye\<close> and one block
  each, at the sector rows \<open>(0, 0)\<close> and \<open>(1, 1)\<close>. \<open>ex_eye_rev\<close> stores the diagonal
  matrix \<open>diag(1, 2)\<close> with its two blocks in the order \<open>(1, 1)\<close>, \<open>(0, 0)\<close>.
\<close>

definition ex_a :: "int array" where
  "ex_a = ex_eye\<lparr>data := [blk [1, 1] [3]], qdata := [[0, 0]]\<rparr>"

definition ex_b :: "int array" where
  "ex_b = ex_eye\<lparr>data := [blk [1, 1] [4]], qdata := [[1, 1]]\<rparr>"

definition ex_eye_rev :: "int array" where
  "ex_eye_rev = ex_eye\<lparr>data := [blk [1, 1] [2], blk [1, 1] [1]],
                        qdata := [[1, 1], [0, 0]], qdata_sorted := False\<rparr>"

text \<open>
  \<open>leg3\<close> has a sector of two indices of charge 0 and a sector of one index of charge 1.
  \<open>ex_mat\<close> is a 3 by 3 matrix with legs \<open>leg3\<close> and its conjugate and total charge
  0 that stores the 2 by 2 block of the first sector of both legs. \<open>ex_scalar\<close> is an
  array without legs that stores its only entry, as \<open>take_slice\<close> returns it when every
  axis is fixed.
\<close>

definition leg3 :: leg where
  "leg3 = LegCharge [(0, 2, [0]), (2, 3, [1])] 1"

definition ex_mat :: "int array" where
  "ex_mat = \<lparr>chinfo = [2], legs = [leg3, leg_conj leg3], shape = [3, 3], dtype = Int64,
             qtotal = [0], labels = [], data = [blk [2, 2] [1, 2, 3, 4]],
             qdata = [[0, 0]], qdata_sorted = True\<rparr>"

definition ex_scalar :: "int array" where
  "ex_scalar = \<lparr>chinfo = [2], legs = [], shape = [], dtype = Int64, qtotal = [0],
                labels = [], data = [blk [] [7]], qdata = [[]], qdata_sorted = True\<rparr>"

text \<open>
  \<open>pipe2\<close> fuses \<open>leg2\<close> and its conjugate: the fused sector 0 (charge 0) holds the member
  sectors \<open>(0, 0)\<close> and \<open>(1, 1)\<close>, the fused sector 1 (charge 1) holds \<open>(1, 0)\<close> and
  \<open>(0, 1)\<close>. \<open>ex_pipe\<close> is \<open>ex_eye\<close> with its two legs combined into this pipe.
\<close>

definition pipe2 :: leg where
  "pipe2 = LegPipe [(0, 2, [0]), (2, 4, [1])] 1 [leg2, leg_conj leg2]
             [(0, 1, [0, 0], 0), (1, 2, [1, 1], 0), (0, 1, [1, 0], 1), (1, 2, [0, 1], 1)]"

definition ex_pipe :: "int array" where
  "ex_pipe = \<lparr>chinfo = [2], legs = [pipe2], shape = [4], dtype = Int64, qtotal = [0],
              labels = [(''(?0.?1)'', 0)], data = [blk [2] [1, 1]], qdata = [[0]],
              qdata_sorted = True\<rparr>"

text \<open>
  The kernels on blocks used to run the contraction on examples: \<open>np.tensordot\<close> over the
  last \<open>axes\<close> axes of the first block and the first \<open>axes\<close> axes of the second, and the
  sum of two blocks of equal shape.
\<close>

definition np_tensordot :: "('a::semiring_0) ndarray \<Rightarrow> 'a ndarray \<Rightarrow> nat \<Rightarrow> 'a ndarray" where
  "np_tensordot s t axes =
     (let ka = take (length (nd_shape s) - axes) (nd_shape s);
          c = drop (length (nd_shape s) - axes) (nd_shape s);
          kb = drop axes (nd_shape t)
      in nd_tabulate (ka @ kb)
           (\<lambda>idx. sum_list
                     (map (\<lambda>ic. nd_data s ! ravel_multi_index (nd_shape s) (take (length ka) idx @ ic)
                                * nd_data t ! ravel_multi_index (nd_shape t) (ic @ drop (length ka) idx))
                        (all_indices c)))
           (nd_dtype s))"

definition np_add :: "('a::plus) ndarray \<Rightarrow> 'a ndarray \<Rightarrow> 'a ndarray" where
  "np_add s t = s\<lparr>nd_data := map (\<lambda>(x, y). x + y) (zip (nd_data s) (nd_data t))\<rparr>"

section \<open>Properties\<close>

lemmas ex_defs = ex_vec_def ex_eye_def ex_a_def ex_b_def ex_eye_rev_def leg2_def blk_def
  pipe2_def ex_pipe_def leg3_def ex_mat_def ex_scalar_def

subsection \<open>Scalar multiplication\<close>

lemma qdata_iunary_blockwise: "qdata (iunary_blockwise func self) = qdata self"
  by (simp add: iunary_blockwise_def Let_def)

lemma length_data_iunary_blockwise:
  "length (data (iunary_blockwise func self)) = length (data self)"
  by (simp add: iunary_blockwise_def Let_def)

text \<open>
  Claim C10. Multiplying an array by the scalar zero, as \<open>a * 0\<close>, \<open>0 * a\<close> or
  \<open>a *= 0\<close>, gives the array with an empty block table: no block and no sector row is
  stored, the table is flagged sorted, and every other field (charge group, legs, shape, element
  type, total charge, labels) is that of \<open>a\<close>. For any other scalar the three operations
  succeed and the table of stored sector rows is that of \<open>a\<close>, with one block per row as
  before. This holds for every multiplication kernel.
\<close>

theorem mul_zero_empty_block_table:
  fixes a :: "'a array" and np_multiply :: "'a ndarray \<Rightarrow> ('s::zero) \<Rightarrow> 'a ndarray"
  shows "mul np_multiply a (Scalar 0) = Inr (a\<lparr>data := [], qdata := [], qdata_sorted := True\<rparr>)
       \<and> rmul np_multiply a (Scalar 0) = Inr (a\<lparr>data := [], qdata := [], qdata_sorted := True\<rparr>)
       \<and> imul np_multiply a (Scalar 0) = Inr (a\<lparr>data := [], qdata := [], qdata_sorted := True\<rparr>)
       \<and> (c \<noteq> 0 \<longrightarrow>
            (\<exists>r. mul np_multiply a (Scalar c) = Inr r \<and> qdata r = qdata a
                 \<and> length (data r) = length (data a))
          \<and> (\<exists>r. rmul np_multiply a (Scalar c) = Inr r \<and> qdata r = qdata a
                 \<and> length (data r) = length (data a))
          \<and> (\<exists>r. imul np_multiply a (Scalar c) = Inr r \<and> qdata r = qdata a
                 \<and> length (data r) = length (data a)))"
  by (simp add: mul_def rmul_def imul_def zeros_like_def copy_def unary_blockwise_def
        qdata_iunary_blockwise length_data_iunary_blockwise)

theorem mul_zero_empty_block_table_witness:
  "(3::int) \<noteq> 0
   \<and> mul int_multiply ex_vec (Scalar 0)
       = Inr (ex_vec\<lparr>data := [], qdata := [], qdata_sorted := True\<rparr>)
   \<and> (\<exists>r. mul int_multiply ex_vec (Scalar 3) = Inr r \<and> qdata r = [[1]]
           \<and> length (data r) = 1)"
  using mul_zero_empty_block_table [of int_multiply ex_vec 3]
  by (simp add: ex_vec_def)

subsection \<open>Blockwise binary operations\<close>

text \<open>
  Claim C4. The claim asks that the merge of the two block tables also works when one table
  is exhausted before the other. In the code the loop then reads one row past the end of
  the exhausted table and raises \<open>IndexError\<close>: with one block at sector row \<open>(0, 0)\<close> in
  \<open>ex_a\<close> and one at \<open>(1, 1)\<close> in \<open>ex_b\<close>, in either order of the operands, and with an
  empty left operand. No result is produced, neither in place nor on a copy.
\<close>

theorem binary_loop_raises_when_one_table_ends_first:
  "fst (ibinary_blockwise int_add ex_a ex_b) = Inl IndexError
   \<and> fst (ibinary_blockwise int_add ex_b ex_a) = Inl IndexError
   \<and> fst (ibinary_blockwise int_add (zeros_like ex_eye) ex_eye) = Inl IndexError
   \<and> fst (binary_blockwise int_add ex_a ex_b) = Inl IndexError"
  by (simp add: binary_blockwise_def ibinary_blockwise_def ex_defs isort_qdata_def test_equal_def
      zeros_like_def copy_def binary_loop.simps)

subsection \<open>Integer indexing\<close>

text \<open>
  Claim C5. The claim includes the index of a rank-1 array given as a single integer,
  \<open>T[i]\<close>. In the code \<open>_pre_indexing\<close> calls \<open>tuple(i)\<close> on it, which raises
  \<open>TypeError\<close>, for every array and every integer.
\<close>

theorem getitem_single_integer_raises:
  "getitem adv T (INonTuple (IInt i)) = Inl TypeError"
  by (simp add: getitem_def pre_indexing_def)

subsection \<open>Conjugation and the charge rule\<close>

text \<open>
  Claim C1. The claim asks the charge rule of every array that an operation produces. The
  vector \<open>ex_vec\<close> over one charge modulo 2 is well formed and satisfies the rule with total
  charge 1. Its conjugate has the total charge \<open>-1\<close>, which \<open>conj\<close> does not canonicalize,
  while the charge of its stored block is the canonical 1: the rule fails for the result.
\<close>

theorem conj_breaks_charge_rule:
  "array_ok ex_vec \<and> charge_inv ex_vec
   \<and> (case conj (\<lambda>t. t) True False ex_vec of
        Inl e \<Rightarrow> False
      | Inr r \<Rightarrow> qtotal r = [- 1] \<and> qdata r = [[1]] \<and> get_block_charge r [1] = Inr [1]
                  \<and> \<not> charge_inv r)"
  by (simp add: ex_defs array_ok_def charge_inv_def conj_def copy_def get_block_charge_def
      get_charge_def py_nth_def make_valid_def charge_sum_def leg_ok_def row_ok_def block_number_def
      ind_len_def get_block_shape_def)

subsection \<open>What a blockwise binary operation does to its operands\<close>

lemma map_err_Inr:
  "(\<And>x. x \<in> set xs \<Longrightarrow> f x = Inr (g x)) \<Longrightarrow> map_err f xs = Inr (map g xs)"
  by (induction xs) auto

lemma set_lexsort: "set (lexsort rows) = {0..<length rows}"
  by (simp add: lexsort_def)

lemma mset_lexsort: "mset (lexsort rows) = mset [0..<length rows]"
  unfolding lexsort_def by (rule mset_sort)

lemma zip_as_map_nth:
  "length xs = length ys \<Longrightarrow> zip xs ys = map (\<lambda>i. (xs ! i, ys ! i)) [0..<length xs]"
  by (rule nth_equalityI) simp_all

lemma mset_zip_permuted:
  assumes "length ds = length qs" and "mset perm = mset [0..<length qs]"
  shows "mset (zip (map (\<lambda>p. qs ! p) perm) (map (\<lambda>p. ds ! p) perm)) = mset (zip qs ds)"
proof -
  have "zip (map (\<lambda>p. qs ! p) perm) (map (\<lambda>p. ds ! p) perm) = map (\<lambda>p. (qs ! p, ds ! p)) perm"
    by (induction perm) simp_all
  then have "mset (zip (map (\<lambda>p. qs ! p) perm) (map (\<lambda>p. ds ! p) perm))
             = image_mset (\<lambda>p. (qs ! p, ds ! p)) (mset perm)"
    by simp
  also have "\<dots> = mset (map (\<lambda>p. (qs ! p, ds ! p)) [0..<length qs])"
    using assms(2) by simp
  also have "\<dots> = mset (zip qs ds)"
    using assms(1) zip_as_map_nth [of qs ds] by simp
  finally show ?thesis .
qed

lemma isort_qdata_effect:
  assumes "length (data self) = length (qdata self)"
  shows "fst (isort_qdata self) = None"
    and "chinfo (snd (isort_qdata self)) = chinfo self"
    and "legs (snd (isort_qdata self)) = legs self"
    and "shape (snd (isort_qdata self)) = shape self"
    and "dtype (snd (isort_qdata self)) = dtype self"
    and "qtotal (snd (isort_qdata self)) = qtotal self"
    and "labels (snd (isort_qdata self)) = labels self"
    and "mset (zip (qdata (snd (isort_qdata self))) (data (snd (isort_qdata self))))
         = mset (zip (qdata self) (data self))"
    and "qdata_sorted self \<Longrightarrow> snd (isort_qdata self) = self"
proof -
  let ?perm = "lexsort (qdata self)"
  have m: "map_err (py_nth (data self)) ?perm = Inr (map (\<lambda>p. data self ! p) ?perm)"
    by (rule map_err_Inr) (simp add: set_lexsort py_nth_def assms)
  show "fst (isort_qdata self) = None"
    by (simp add: isort_qdata_def Let_def m)
  show "chinfo (snd (isort_qdata self)) = chinfo self"
    by (simp add: isort_qdata_def Let_def m)
  show "legs (snd (isort_qdata self)) = legs self"
    by (simp add: isort_qdata_def Let_def m)
  show "shape (snd (isort_qdata self)) = shape self"
    by (simp add: isort_qdata_def Let_def m)
  show "dtype (snd (isort_qdata self)) = dtype self"
    by (simp add: isort_qdata_def Let_def m)
  show "qtotal (snd (isort_qdata self)) = qtotal self"
    by (simp add: isort_qdata_def Let_def m)
  show "labels (snd (isort_qdata self)) = labels self"
    by (simp add: isort_qdata_def Let_def m)
  show "mset (zip (qdata (snd (isort_qdata self))) (data (snd (isort_qdata self))))
         = mset (zip (qdata self) (data self))"
    using mset_zip_permuted [OF assms mset_lexsort]
    by (simp add: isort_qdata_def Let_def m)
  show "qdata_sorted self \<Longrightarrow> snd (isort_qdata self) = self"
    by (simp add: isort_qdata_def)
qed

subsection \<open>Sectors of flat indices\<close>



lemma map_err_zip_all2:
  "list_all2 (\<lambda>x y. \<exists>z. f (x, y) = Inr z \<and> P x y z) xs ys
   \<Longrightarrow> \<exists>zs. map_err f (zip xs ys) = Inr zs \<and> length zs = length xs
          \<and> (\<forall>k<length xs. f (xs ! k, ys ! k) = Inr (zs ! k) \<and> P (xs ! k) (ys ! k) (zs ! k))"
proof (induction xs ys rule: list_all2_induct)
  case Nil
  then show ?case by simp
next
  case (Cons x xs y ys)
  then obtain z zs where z: "f (x, y) = Inr z" "P x y z"
    and zs: "map_err f (zip xs ys) = Inr zs" "length zs = length xs"
      "\<forall>k<length xs. f (xs ! k, ys ! k) = Inr (zs ! k) \<and> P (xs ! k) (ys ! k) (zs ! k)"
    by blast
  show ?case
  proof (intro exI [of _ "z # zs"] conjI allI impI)
    show "map_err f (zip (x # xs) (y # ys)) = Inr (z # zs)" using z zs by simp
    show "length (z # zs) = length (x # xs)" using zs by simp
  next
    fix k assume "k < length (x # xs)"
    then show "f ((x # xs) ! k, (y # ys) ! k) = Inr ((z # zs) ! k)"
      using z zs by (cases k) auto
  next
    fix k assume "k < length (x # xs)"
    then show "P ((x # xs) ! k) ((y # ys) ! k) ((z # zs) ! k)"
      using z zs by (cases k) auto
  qed
qed











subsection \<open>Assignment of an entry\<close>





subsection \<open>Splitting legs\<close>

lemmas split_eval_defs = split_legs_def split_legs_axes_def get_leg_indices_def get_leg_index_def
  rank_def py_getitem_def

text \<open>
  Claim C8. The claim asks that \<open>split_legs\<close> succeeds for a list of distinct fused axes
  and raises for an axis given twice. The test in the code is the other way round: it raises
  when the number of distinct axes equals the number of axes. The only leg of \<open>ex_pipe\<close> is
  a pipe; splitting the axis list \<open>[0]\<close> raises \<open>ValueError\<close>, the list \<open>[0, 0]\<close> passes
  the checks of the request, and only the default, all pipes, splits the leg and gives
  back the legs and blocks of \<open>ex_eye\<close>.
\<close>

theorem split_legs_distinct_pipe_axis_raises:
  "is_LegPipe (legs ex_pipe ! 0)
   \<and> split_legs ex_pipe (Some [AxInt 0]) 0 = Inl ValueError
   \<and> split_legs_axes ex_pipe (Some [AxInt 0, AxInt 0]) = Inr [0, 0]
   \<and> split_legs ex_pipe None 0 = Inr (ex_eye\<lparr>qdata_sorted := False\<rparr>)"
  by (simp add: split_eval_defs ex_defs split_legs_worker_def copy_def py_nth_def nlegs_def
      q_map_slices_def block_number_def np_put.simps Let_def ind_len_def np_set_slice_def
      nd_slice_def nd_reshape_def nd_tabulate_def slice_bounds_def np_any_abs_gt_def
      get_leg_labels_def split_leg_label_def split_label_pieces_def set_leg_labels_def)

text \<open>
  Claim C7. The claim splits the combined array on its pipe axes, given as a list. For every
  array, and so for every result of \<open>combine_legs\<close>, \<open>split_legs\<close> raises
  \<open>ValueError\<close> when the axes it is given resolve to a list without repetition: the round
  trip of the claim ends in this exception and returns no array.
\<close>

theorem split_legs_explicit_axes_raises:
  fixes X :: "('a::{abs,ord}) array"
  assumes "get_leg_indices X axes = Inr ax" and "distinct ax"
  shows "split_legs X (Some axes) cutoff = Inl ValueError"
  using assms by (simp add: split_legs_def split_legs_axes_def)

theorem split_legs_explicit_axes_raises_witness:
  "get_leg_indices ex_pipe [AxInt 0] = Inr [0] \<and> distinct [0::int]
   \<and> split_legs ex_pipe (Some [AxInt 0]) 0 = Inl ValueError"
  using split_legs_explicit_axes_raises [of ex_pipe "[AxInt 0]" "[0]" 0]
  by (simp add: get_leg_indices_def get_leg_index_def rank_def ex_defs)


subsection \<open>Lexicographic order and groups of equal rows\<close>

lemma lex_append_le:
  fixes xs ys :: "('a::linorder) list"
  shows "length xs = length ys \<Longrightarrow> xs @ u \<le> ys @ v \<Longrightarrow> xs \<le> ys"
  by (induction xs ys rule: list_induct2) auto

lemma lex_append_less:
  fixes xs ys :: "('a::linorder) list"
  shows "length xs = length ys \<Longrightarrow> xs < ys \<Longrightarrow> xs @ u < ys @ v"
  by (induction xs ys rule: list_induct2) auto

lemma lex_same_prefix_less:
  fixes xs :: "('a::linorder) list"
  shows "xs @ u < xs @ v \<longleftrightarrow> u < v"
  by (induction xs) auto

lemma sorted_distinct_adj_strict:
  fixes xs :: "('a::linorder) list"
  shows "sorted xs \<Longrightarrow> distinct_adj xs \<Longrightarrow> sorted_wrt (<) xs"
proof (induction xs rule: induct_list012)
  case (3 x y zs)
  then have "x < y" by auto
  moreover have "\<forall>z\<in>set zs. y \<le> z" using 3 by auto
  ultimately show ?case using 3 by auto
qed auto

lemma reps_remdups_adj:
  "xs \<noteq> [] \<Longrightarrow>
   map (\<lambda>i. xs ! i) (0 # filter (\<lambda>i. xs ! (i - 1) \<noteq> xs ! i) [1..<length xs]) = remdups_adj xs"
proof (induction xs rule: induct_list012)
  case 1
  then show ?case by simp
next
  case (2 x)
  then show ?case by simp
next
  case (3 x y zs)
  define F where "F = filter (\<lambda>i. (y # zs) ! (i - 1) \<noteq> (y # zs) ! i) [1..<length (y # zs)]"
  define M where "M = map (\<lambda>i. (y # zs) ! i) F"
  have ih: "map (\<lambda>i. (y # zs) ! i) (0 # F) = remdups_adj (y # zs)"
    using 3 by (simp add: F_def)
  have tl: "M = tl (remdups_adj (y # zs))"
    unfolding M_def by (simp only: ih [symmetric] list.map list.sel)
  have u: "[1..<length (x # y # zs)] = 1 # map Suc [1..<length (y # zs)]"
    by (simp add: upt_conv_Cons map_Suc_upt del: upt_Suc)
  have f: "filter (\<lambda>i. (x # y # zs) ! (i - 1) \<noteq> (x # y # zs) ! i) (map Suc [1..<length (y # zs)])
           = map Suc F"
    unfolding filter_map comp_def F_def
    by (rule arg_cong [where f = "map Suc"], rule filter_cong) (auto simp: nth_Cons')
  have g: "map (\<lambda>i. (x # y # zs) ! i) (map Suc F) = M"
    by (simp add: comp_def M_def)
  have "map (\<lambda>i. (x # y # zs) ! i)
          (0 # filter (\<lambda>i. (x # y # zs) ! (i - 1) \<noteq> (x # y # zs) ! i) [1..<length (x # y # zs)])
        = x # (if x \<noteq> y then [y] else [])
            @ map (\<lambda>i. (x # y # zs) ! i)
                (filter (\<lambda>i. (x # y # zs) ! (i - 1) \<noteq> (x # y # zs) ! i)
                   (map Suc [1..<length (y # zs)]))"
    unfolding u by simp
  also have "\<dots> = x # (if x \<noteq> y then [y] else []) @ M"
    by (simp only: f g)
  also have "\<dots> = remdups_adj (x # y # zs)"
  proof -
    have r: "y # tl (remdups_adj (y # zs)) = remdups_adj (y # zs)" by simp
    show ?thesis
    proof (cases "x = y")
      case True
      then have "remdups_adj (x # y # zs) = remdups_adj (y # zs)" by simp
      with True r show ?thesis unfolding tl by simp
    next
      case False
      then have "remdups_adj (x # y # zs) = x # remdups_adj (y # zs)" by simp
      with False r show ?thesis unfolding tl by simp
    qed
  qed
  finally show ?case .
qed

lemma butlast_find_row_differences:
  "butlast (find_row_differences rows)
   = (if rows = [] then [] else 0 # filter (\<lambda>i. rows ! (i - 1) \<noteq> rows ! i) [1..<length rows])"
  by (simp add: find_row_differences_def butlast_append)

lemma group_reps:
  "map (\<lambda>i. rows ! i) (butlast (find_row_differences rows)) = remdups_adj rows"
  using reps_remdups_adj [of rows] by (simp add: butlast_find_row_differences)


lemma sorted_map_append_prefix:
  fixes f :: "'b \<Rightarrow> ('a::linorder) list"
  assumes len: "\<And>x y. x \<in> set xs \<Longrightarrow> y \<in> set xs \<Longrightarrow> length (f x) = length (f y)"
    and srt: "sorted (map (\<lambda>x. f x @ g x) xs)"
  shows "sorted (map f xs)"
  using assms
proof (induction xs)
  case Nil
  then show ?case by simp
next
  case (Cons x xs)
  have "\<forall>y\<in>set xs. f x \<le> f y"
  proof
    fix y assume y: "y \<in> set xs"
    with Cons.prems(2) have "f x @ g x \<le> f y @ g y" by auto
    moreover have "length (f x) = length (f y)" using Cons.prems(1) y by simp
    ultimately show "f x \<le> f y" by (rule lex_append_le [rotated])
  qed
  moreover have "sorted (map f xs)"
    using Cons by simp
  ultimately show ?case by simp
qed

lemma sorted_rev_remdups_adj_strict:
  fixes K :: "('a::linorder) list list"
  assumes "sorted (map rev K)"
  shows "sorted_wrt (<) (map rev (remdups_adj K))"
proof -
  have e: "map rev (remdups_adj K) = remdups_adj (map rev K)"
    by (rule remdups_adj_map_injective [symmetric]) simp
  show ?thesis
    unfolding e using assms by (intro sorted_distinct_adj_strict) simp_all
qed

text \<open>The kept rows after sorting by contracted key and kept row are in order.\<close>

lemma sorted_keep_rows:
  assumes len: "\<And>r. r \<in> set rows \<Longrightarrow> length (kp r) = n"
  shows "sorted (map rev (map (\<lambda>i. kp (rows ! i))
                         (lexsort (map (\<lambda>r. (ky r :: nat) # kp r) rows))))"
proof -
  let ?R = "map (\<lambda>r. ky r # kp r) rows"
  let ?S = "lexsort ?R"
  have S: "set ?S = {0..<length rows}" by (simp add: lexsort_def)
  have "sorted (map (\<lambda>i. rev (?R ! i)) ?S)"
    unfolding lexsort_def by (rule sorted_sort_key)
  moreover have "map (\<lambda>i. rev (?R ! i)) ?S = map (\<lambda>i. rev (kp (rows ! i)) @ [ky (rows ! i)]) ?S"
    by (rule map_cong) (use S in auto)
  ultimately have "sorted (map (\<lambda>i. rev (kp (rows ! i)) @ [ky (rows ! i)]) ?S)" by simp
  then have "sorted (map (\<lambda>i. rev (kp (rows ! i))) ?S)"
    by (rule sorted_map_append_prefix [rotated]) (use S len in auto)
  then show ?thesis by (simp add: comp_def)
qed

lemma sorted_keep_rows_flagged:
  assumes len: "\<And>r. r \<in> set rows \<Longrightarrow> length r = n"
    and srt: "sorted (map rev (rows :: nat list list))"
  shows "sorted (map rev (map (\<lambda>i. drop c (rows ! i)) [0..<length rows]))"
proof -
  have "map (\<lambda>i. drop c (rows ! i)) [0..<length rows] = map (drop c) rows"
    by (rule nth_equalityI) simp_all
  moreover have "sorted (map (\<lambda>r. rev (drop c r)) rows)"
  proof (rule sorted_map_append_prefix [where g = "\<lambda>r. rev (take c r)"])
    show "\<And>x y. x \<in> set rows \<Longrightarrow> y \<in> set rows \<Longrightarrow> length (rev (drop c x)) = length (rev (drop c y))"
      using len by simp
    have "(\<lambda>x. rev (drop c x) @ rev (take c x)) = (rev :: nat list \<Rightarrow> nat list)"
      by (rule ext) (simp add: rev_append [symmetric])
    then show "sorted (map (\<lambda>x. rev (drop c x) @ rev (take c x)) rows)"
      using srt by (simp only:)
  qed
  ultimately show ?thesis by (simp add: comp_def)
qed


subsection \<open>The rows of a contraction\<close>

lemma concat_if_singleton:
  "concat (map (\<lambda>r. if P r then [f r] else []) rs) = map f (filter P rs)"
  by (induction rs) auto

lemma concat_product_filter:
  "concat (map (\<lambda>c. concat (map (\<lambda>r. if P r c then [f r c] else []) rs)) cs)
   = map (\<lambda>(c, r). f r c) (filter (\<lambda>(c, r). P r c) (List.product cs rs))"
proof (induction cs)
  case Nil
  then show ?case by simp
next
  case (Cons c cs)
  have "concat (map (\<lambda>r. if P r c then [f r c] else []) rs)
        = map (\<lambda>(c, r). f r c) (filter (\<lambda>(c, r). P r c) (map (Pair c) rs))"
    by (simp add: concat_if_singleton filter_map comp_def)
  with Cons show ?case by simp
qed

lemma strict_sorted_product:
  fixes kb :: "'c \<Rightarrow> ('a::linorder) list" and ka :: "'r \<Rightarrow> 'a list"
  assumes "sorted_wrt (<) (map kb cs)" and "sorted_wrt (<) (map ka rs)"
    and "\<And>c c'. c \<in> set cs \<Longrightarrow> c' \<in> set cs \<Longrightarrow> length (kb c) = length (kb c')"
  shows "sorted_wrt (<) (map (\<lambda>(c, r). kb c @ ka r) (List.product cs rs))"
  using assms(1,3)
proof (induction cs)
  case Nil
  then show ?case by simp
next
  case (Cons c cs)
  have first: "sorted_wrt (<) (map (\<lambda>(c, r). kb c @ ka r) (map (Pair c) rs))"
    using assms(2) by (simp add: sorted_wrt_map comp_def lex_same_prefix_less)
  have rest: "sorted_wrt (<) (map (\<lambda>(c, r). kb c @ ka r) (List.product cs rs))"
    using Cons by simp
  have cross: "\<forall>x\<in>set (map (\<lambda>(c, r). kb c @ ka r) (map (Pair c) rs)).
               \<forall>y\<in>set (map (\<lambda>(c, r). kb c @ ka r) (List.product cs rs)). x < y"
  proof (intro ballI)
    fix x y
    assume "x \<in> set (map (\<lambda>(c, r). kb c @ ka r) (map (Pair c) rs))"
      and "y \<in> set (map (\<lambda>(c, r). kb c @ ka r) (List.product cs rs))"
    then obtain r c' r' where x: "x = kb c @ ka r" and y: "y = kb c' @ ka r'" and c': "c' \<in> set cs"
      by auto
    from Cons.prems(1) c' have "kb c < kb c'" by auto
    moreover have "length (kb c) = length (kb c')" using Cons.prems(2) c' by simp
    ultimately show "x < y" unfolding x y by (intro lex_append_less)
  qed
  show ?case
    using first rest cross by (simp add: sorted_wrt_append)
qed

lemma count_list_map_filter:
  "distinct (map g xs) \<Longrightarrow> x \<in> set xs
   \<Longrightarrow> count_list (map g (filter P xs)) (g x) = (if P x then 1 else 0)"
proof (induction xs)
  case Nil
  then show ?case by simp
next
  case (Cons y ys)
  show ?case
  proof (cases "x = y")
    case True
    have "g y \<notin> set (map g (filter P ys))" using Cons.prems(1) by auto
    then have "count_list (map g (filter P ys)) (g y) = 0" by (simp add: count_list_0_iff)
    with True show ?thesis by simp
  next
    case False
    with Cons.prems have x: "x \<in> set ys" and d: "distinct (map g ys)" by auto
    have "g x \<noteq> g y" using Cons.prems(1) x by (auto simp: image_iff)
    with Cons.IH [OF d x] show ?thesis by simp
  qed
qed

lemma block_sum_None: "block_sum tdot add dt axes ap bp pairs = None \<longleftrightarrow> pairs = []"
  by (cases pairs) (auto simp: block_sum_def)

lemma fold_add_dtype:
  assumes "\<And>s t. nd_dtype (add s t) = nd_dtype s"
  shows "nd_dtype (fold (\<lambda>(k1, k2) acc. add acc (h k1 k2)) pairs acc0) = nd_dtype acc0"
  by (induction pairs arbitrary: acc0) (auto simp: assms)

lemma block_sum_dtype:
  assumes "\<And>s t. nd_dtype (add s t) = nd_dtype s"
    and "block_sum tdot add dt axes ap bp pairs = Some bs0"
  shows "nd_dtype bs0 = dt"
proof (cases pairs)
  case Nil
  with assms(2) show ?thesis by (simp add: block_sum_def)
next
  case (Cons p rest)
  obtain k1 k2 where p: "p = (k1, k2)" by (cases p)
  from assms(2) Cons p have
    "bs0 = fold (\<lambda>(k1, k2) acc. add acc (tdot (pre_data ap ! k1) (pre_data bp ! k2) axes)) rest
             ((tdot (pre_data ap ! k1) (pre_data bp ! k2) axes)\<lparr>nd_dtype := dt\<rparr>)"
    by (simp add: block_sum_def)
  then show ?thesis
    using fold_add_dtype [of add "\<lambda>k1 k2. tdot (pre_data ap ! k1) (pre_data bp ! k2) axes" rest,
        OF assms(1)]
    by simp
qed


lemma map_err_all_Inr:
  "(\<And>x. x \<in> set xs \<Longrightarrow> \<exists>y. f x = Inr y)
   \<Longrightarrow> \<exists>ys. map_err f xs = Inr ys \<and> length ys = length xs"
proof (induction xs)
  case Nil
  then show ?case by simp
next
  case (Cons x xs)
  then obtain y where y: "f x = Inr y" by auto
  from Cons obtain ys where "map_err f xs = Inr ys" "length ys = length xs" by auto
  with y show ?case by simp
qed

lemma charges_keep_ok:
  assumes "\<And>k. k \<in> set keep \<Longrightarrow> list_all2 (\<lambda>qi l. qi < block_number l) k ls"
  shows "\<exists>cs. charges_keep mods ls keep = Inr cs \<and> length cs = length keep"
  unfolding charges_keep_def
proof (rule map_err_all_Inr)
  fix k assume "k \<in> set keep"
  then have k: "list_all2 (\<lambda>qi l. qi < block_number l) k ls" by (rule assms)
  let ?f = "\<lambda>(l, qi). get_charge l qi"
  have "list_all2 (\<lambda>x y. \<exists>z. ?f (x, y) = Inr z \<and> True) ls k"
  proof (rule list_all2_all_nthI)
    show "length ls = length k" using k by (simp add: list_all2_lengthD)
  next
    fix n assume "n < length ls"
    with k have "k ! n < block_number (ls ! n)" by (auto dest: list_all2_nthD2)
    then show "\<exists>z. ?f (ls ! n, k ! n) = Inr z \<and> True"
      by (auto simp: get_charge_def py_nth_def block_number_def split: prod.splits)
  qed
  from map_err_zip_all2 [of ?f "\<lambda>x y z. True", OF this]
  obtain qs where "map_err ?f (zip ls k) = Inr qs" by auto
  then show "\<exists>y. (case map_err ?f (zip ls k) of Inl e \<Rightarrow> Inl e
              | Inr qs \<Rightarrow> Inr (make_valid mods (charge_sum (length mods) qs))) = Inr y"
    by simp
qed

lemma pre_worker_ok:
  fixes a b :: "'a array"
  assumes oka: "array_ok a" and okb: "array_ok b" and fb: "flag_ok b"
    and rows_a: "\<And>r. r \<in> set (qdata a) \<Longrightarrow> length r = rank a"
    and rows_b: "\<And>r. r \<in> set (qdata b) \<Longrightarrow> length r = rank b"
  shows "\<exists>ap bp. tensordot_pre_worker a b cut_a cut_b = Inr (ap, bp)
      \<and> sorted_wrt (<) (map rev (pre_qdata_keep ap))
      \<and> sorted_wrt (<) (map rev (pre_qdata_keep bp))
      \<and> (\<forall>k\<in>set (pre_qdata_keep ap). \<exists>r\<in>set (qdata a). k = take cut_a r)
      \<and> (\<forall>k\<in>set (pre_qdata_keep bp). \<exists>r\<in>set (qdata b). k = drop cut_b r)"
proof -
  let ?stride = "cumprod 1 (1 # map block_number (butlast (drop cut_a (legs a))))"
  let ?a_sort = "lexsort (map (\<lambda>row. encode_qdata ?stride (drop cut_a row) # take cut_a row)
                              (qdata a))"
  let ?Ka = "map (\<lambda>i. take cut_a (qdata a ! i)) ?a_sort"
  let ?b_sort = "(if \<not> qdata_sorted b then
                    lexsort (map (\<lambda>row. encode_qdata ?stride (take cut_b row) # drop cut_b row)
                               (qdata b))
                  else [0..<length (qdata b)])"
  let ?Kb = "map (\<lambda>i. drop cut_b (qdata b ! i)) ?b_sort"
  have lda: "length (data a) = length (qdata a)" using oka by (simp add: array_ok_def)
  have ldb: "length (data b) = length (qdata b)" using okb by (simp add: array_ok_def)
  have sa: "set ?a_sort = {0..<length (qdata a)}" by (simp add: set_lexsort)
  have sb: "set ?b_sort = {0..<length (qdata b)}" by (simp add: set_lexsort)
  have ad: "map_err (py_nth (data a)) ?a_sort = Inr (map (\<lambda>i. data a ! i) ?a_sort)"
    by (rule map_err_Inr) (use sa lda in \<open>auto simp: py_nth_def\<close>)
  have bd: "(if \<not> qdata_sorted b then map_err (py_nth (data b)) ?b_sort else Inr (data b))
            = Inr (if \<not> qdata_sorted b then map (\<lambda>i. data b ! i) ?b_sort else data b)"
  proof (cases "qdata_sorted b")
    case True
    then show ?thesis by simp
  next
    case False
    have "map_err (py_nth (data b)) ?b_sort = Inr (map (\<lambda>i. data b ! i) ?b_sort)"
      by (rule map_err_Inr) (use sb ldb in \<open>auto simp: py_nth_def\<close>)
    with False show ?thesis by simp
  qed
  have repa: "map (\<lambda>i. ?Ka ! i) (butlast (find_row_differences ?Ka)) = remdups_adj ?Ka"
    by (rule group_reps)
  have repb: "map (\<lambda>i. ?Kb ! i) (butlast (find_row_differences ?Kb)) = remdups_adj ?Kb"
    by (rule group_reps)
  have ina: "\<forall>k\<in>set (remdups_adj ?Ka). \<exists>r\<in>set (qdata a). k = take cut_a r"
    using sa by auto
  have inb: "\<forall>k\<in>set (remdups_adj ?Kb). \<exists>r\<in>set (qdata b). k = drop cut_b r"
    using sb by (auto simp del: set_upt)
  have rowa: "\<And>r. r \<in> set (qdata a) \<Longrightarrow> list_all2 (\<lambda>qi l. qi < block_number l) r (legs a)"
    using oka by (auto simp: array_ok_def row_ok_def list_all_iff)
  have rowb: "\<And>r. r \<in> set (qdata b) \<Longrightarrow> list_all2 (\<lambda>qi l. qi < block_number l) r (legs b)"
    using okb by (auto simp: array_ok_def row_ok_def list_all_iff)
  have "\<exists>cs. charges_keep (chinfo a) (take cut_a (legs a)) (remdups_adj ?Ka) = Inr cs
          \<and> length cs = length (remdups_adj ?Ka)"
  proof (rule charges_keep_ok)
    fix k assume "k \<in> set (remdups_adj ?Ka)"
    with ina obtain r where "r \<in> set (qdata a)" "k = take cut_a r" by blast
    then show "list_all2 (\<lambda>qi l. qi < block_number l) k (take cut_a (legs a))"
      using rowa [of r] by (simp add: list_all2_takeI)
  qed
  then obtain ca where ca: "charges_keep (chinfo a) (take cut_a (legs a)) (remdups_adj ?Ka) = Inr ca"
    by blast
  have "\<exists>cs. charges_keep (chinfo a) (drop cut_b (legs b)) (remdups_adj ?Kb) = Inr cs
          \<and> length cs = length (remdups_adj ?Kb)"
  proof (rule charges_keep_ok)
    fix k assume "k \<in> set (remdups_adj ?Kb)"
    with inb obtain r where "r \<in> set (qdata b)" "k = drop cut_b r" by blast
    then show "list_all2 (\<lambda>qi l. qi < block_number l) k (drop cut_b (legs b))"
      using rowb [of r] by (simp add: list_all2_dropI)
  qed
  then obtain cb where cb: "charges_keep (chinfo a) (drop cut_b (legs b)) (remdups_adj ?Kb) = Inr cb"
    by blast
  have srta: "sorted (map rev ?Ka)"
    by (rule sorted_keep_rows [where n = "min cut_a (rank a)"]) (simp add: rows_a)
  have srtb: "sorted (map rev ?Kb)"
  proof (cases "qdata_sorted b")
    case True
    then have "sorted (map rev (qdata b))" using fb by (simp add: flag_ok_def)
    from sorted_keep_rows_flagged [OF rows_b this, of cut_b] True show ?thesis by simp
  next
    case False
    have "sorted (map rev (map (\<lambda>i. drop cut_b (qdata b ! i))
            (lexsort (map (\<lambda>row. encode_qdata ?stride (take cut_b row) # drop cut_b row)
                               (qdata b)))))"
      by (rule sorted_keep_rows [where n = "rank b - cut_b"]) (simp add: rows_b)
    with False show ?thesis by simp
  qed
  have "tensordot_pre_worker a b cut_a cut_b =
          Inr (\<lparr>pre_data = map (\<lambda>i. data a ! i) ?a_sort,
                 pre_qdata_sum = map (\<lambda>i. map (\<lambda>row. encode_qdata ?stride (drop cut_a row)) (qdata a) ! i)
                                   ?a_sort,
                 pre_qdata_keep = remdups_adj ?Ka, pre_charges_keep = ca,
                 pre_slices = find_row_differences ?Ka\<rparr>,
               \<lparr>pre_data = (if \<not> qdata_sorted b then map (\<lambda>i. data b ! i) ?b_sort else data b),
                 pre_qdata_sum = map (\<lambda>i. map (\<lambda>row. encode_qdata ?stride (take cut_b row)) (qdata b) ! i)
                                   ?b_sort,
                 pre_qdata_keep = remdups_adj ?Kb, pre_charges_keep = cb,
                 pre_slices = find_row_differences ?Kb\<rparr>)"
    unfolding tensordot_pre_worker_def Let_def
    by (simp only: ad bd repa repb ca cb sum.case)
  then show ?thesis
    using ina inb sorted_rev_remdups_adj_strict [OF srta] sorted_rev_remdups_adj_strict [OF srtb]
    by (intro exI conjI) (assumption | simp)+
qed


end
